theory Spec2Isabelle
  imports Complex_Main
begin

section \<open>Python values, errors and builtins\<close>

text \<open>
  The adapter is \<^verbatim>\<open>src/swami/__init__.py\<close>. Its numbers are Python floats. Their
  parsing (\<^verbatim>\<open>float\<close>), truncation (\<^verbatim>\<open>int\<close>) and printing (\<^verbatim>\<open>str\<close>) are builtins
  of the language, not code of the adapter, so the model takes them as parameters:
  \<open>pyfloat\<close> and \<open>pyint\<close> over a type \<open>'v\<close> of the floats read back, where
  \<open>pyfloat t = None\<close> is the \<^verbatim>\<open>ValueError\<close> of \<^verbatim>\<open>float(t)\<close> and \<open>pyint v = Inl e\<close> is the
  error of \<^verbatim>\<open>int(v)\<close> on an infinity or a NaN; and \<open>pystr\<close> over a type \<open>'i\<close> of the
  numbers passed in. Every theorem holds for all such parameters.
  Text is a \<open>string\<close>, one \<open>char\<close> per code point below 256.
\<close>

datatype py_error = ValueError | IndexError | OverflowError | TypeError | OSError

text \<open>\<^verbatim>\<open>Union[float, List[float]]\<close>: a field holds a bare float or a list of floats.\<close>

datatype 'v field = Scalar 'v | Seq "'v list"

record 'v MCMOutput =
  altitude :: "'v field"
  day_of_year :: "'v field"
  local_time :: "'v field"
  latitude :: "'v field"
  longitude :: "'v field"
  f107 :: "'v field"
  f107m :: "'v field"
  kp1 :: "'v field"
  kp2 :: "'v field"
  dens :: "'v field"
  temp :: "'v field"
  wmm :: "'v field"
  d_H :: "'v field"
  d_He :: "'v field"
  d_O :: "'v field"
  d_N2 :: "'v field"
  d_O2 :: "'v field"
  d_N :: "'v field"
  tinf :: "'v field"
  dens_unc :: "'v field"
  dens_std :: "'v field"
  xwind :: "'v field"
  ywind :: "'v field"
  xwind_std :: "'v field"
  ywind_std :: "'v field"

subsection \<open>\<^verbatim>\<open>str.strip\<close>, \<^verbatim>\<open>str.split\<close> and slices\<close>

text \<open>\<^verbatim>\<open>str.isspace\<close> on the code points below 256.\<close>

definition isspace :: "char \<Rightarrow> bool" where
  "isspace c = (of_char c \<in> {9, 10, 11, 12, 13, 28, 29, 30, 31, 32, 133, 160 :: nat})"

definition strip :: "string \<Rightarrow> string" where
  "strip s = rev (dropWhile isspace (rev (dropWhile isspace s)))"

text \<open>
  \<^verbatim>\<open>s.split()\<close> with no separator: the maximal runs of characters that are not
  whitespace, in order. \<open>w\<close> is the run being read.
\<close>

fun split_run :: "string \<Rightarrow> string \<Rightarrow> string list" where
  "split_run w [] = (if w = [] then [] else [w])"
| "split_run w (c # cs) =
     (if isspace c then (if w = [] then split_run [] cs else w # split_run [] cs)
      else split_run (w @ [c]) cs)"

definition split :: "string \<Rightarrow> string list" where
  "split s = split_run [] s"

text \<open>
  The bound of a slice \<^verbatim>\<open>xs[:k]\<close> or \<^verbatim>\<open>xs[k:]\<close> on a list of length \<open>n\<close>: a negative
  \<open>k\<close> counts from the end, and the bound is clamped to \<open>0..n\<close>. Slices never raise.
\<close>

definition slice_bound :: "int \<Rightarrow> nat \<Rightarrow> nat" where
  "slice_bound k n = (if k < 0 then nat (max 0 (k + int n)) else min (nat k) n)"

definition slice_to :: "'a list \<Rightarrow> int \<Rightarrow> 'a list" where
  "slice_to xs k = take (slice_bound k (length xs)) xs"

definition slice_from :: "'a list \<Rightarrow> int \<Rightarrow> 'a list" where
  "slice_from xs k = drop (slice_bound k (length xs)) xs"

section \<open>Output parsing: \<^verbatim>\<open>MCM._read_output\<close>\<close>

text \<open>\<^verbatim>\<open>list(map(float, tokens))\<close>: the first token that is no float raises.\<close>

fun map_float :: "(string \<Rightarrow> 'v option) \<Rightarrow> string list \<Rightarrow> py_error + 'v list" where
  "map_float pyfloat [] = Inr []"
| "map_float pyfloat (t # ts) =
     (case pyfloat t of
        None \<Rightarrow> Inl ValueError
      | Some v \<Rightarrow> (case map_float pyfloat ts of Inl e \<Rightarrow> Inl e | Inr vs \<Rightarrow> Inr (v # vs)))"

text \<open>
  The loop \<^verbatim>\<open>for _ in range(25)\<close>, with the rounds still to run as first argument:
  \<^verbatim>\<open>arr = values[:length]; values = values[length:]\<close>, then \<^verbatim>\<open>arr = arr[0]\<close> when
  \<^verbatim>\<open>length == 1\<close> (an \<^verbatim>\<open>IndexError\<close> on an empty \<open>arr\<close>), then \<^verbatim>\<open>arrays.append(arr)\<close>.
\<close>

fun read_arrays :: "nat \<Rightarrow> int \<Rightarrow> 'v list \<Rightarrow> 'v field list \<Rightarrow> py_error + 'v field list" where
  "read_arrays 0 len values arrays = Inr arrays"
| "read_arrays (Suc k) len values arrays =
     (let arr = slice_to values len; values' = slice_from values len in
      if len = 1 then
        (case arr of
           [] \<Rightarrow> Inl IndexError
         | a # _ \<Rightarrow> read_arrays k len values' (arrays @ [Scalar a]))
      else read_arrays k len values' (arrays @ [Seq arr]))"

text \<open>The unpacking of \<open>arrays\<close> into 25 names (a \<^verbatim>\<open>ValueError\<close> on any other length).\<close>

definition unpack :: "'v field list \<Rightarrow> py_error + 'v MCMOutput" where
  "unpack arrays =
     (if length arrays \<noteq> 25 then Inl ValueError
      else Inr \<lparr>altitude = arrays ! 0, day_of_year = arrays ! 1, local_time = arrays ! 2,
        latitude = arrays ! 3, longitude = arrays ! 4, f107 = arrays ! 5, f107m = arrays ! 6,
        kp1 = arrays ! 7, kp2 = arrays ! 8, dens = arrays ! 9, temp = arrays ! 10,
        wmm = arrays ! 11, d_H = arrays ! 12, d_He = arrays ! 13, d_O = arrays ! 14,
        d_N2 = arrays ! 15, d_O2 = arrays ! 16, d_N = arrays ! 17, tinf = arrays ! 18,
        dens_unc = arrays ! 19, dens_std = arrays ! 20, xwind = arrays ! 21,
        ywind = arrays ! 22, xwind_std = arrays ! 23, ywind_std = arrays ! 24\<rparr>)"

text \<open>
  \<^verbatim>\<open>_read_output\<close>: every token is converted first; \<^verbatim>\<open>values[0]\<close> raises
  \<^verbatim>\<open>IndexError\<close> when there is no token; \<^verbatim>\<open>values[1:]\<close> is the tail.
\<close>

definition read_output ::
  "(string \<Rightarrow> 'v option) \<Rightarrow> ('v \<Rightarrow> py_error + int) \<Rightarrow> string \<Rightarrow> py_error + 'v MCMOutput" where
  "read_output pyfloat pyint out =
     (case map_float pyfloat (split (strip out)) of
        Inl e \<Rightarrow> Inl e
      | Inr values \<Rightarrow>
          (case values of
             [] \<Rightarrow> Inl IndexError
           | v0 # values' \<Rightarrow>
               (case pyint v0 of
                  Inl e \<Rightarrow> Inl e
                | Inr len \<Rightarrow>
                    (case read_arrays 25 len values' [] of
                       Inl e \<Rightarrow> Inl e
                     | Inr arrays \<Rightarrow> unpack arrays))))"

subsection \<open>An instance of the builtins on plain decimal literals\<close>

text \<open>
  The closed examples below need concrete builtins. \<open>lit_float\<close> is \<^verbatim>\<open>float\<close> on the
  literals \<^verbatim>\<open>[+-]digits[.digits]\<close>, valued exactly as a rational; every other token is
  rejected here. The examples use only literals that a double represents exactly
  (\<^verbatim>\<open>1\<close>, \<^verbatim>\<open>1.0\<close>, \<^verbatim>\<open>2.0\<close>, ...) and tokens that \<^verbatim>\<open>float\<close> rejects too (\<^verbatim>\<open>x\<close>), where
  \<open>lit_float\<close> and \<^verbatim>\<open>float\<close> agree. \<open>lit_int\<close> is \<^verbatim>\<open>int\<close> on a finite float: truncation
  towards zero.
\<close>

definition digit_val :: "char \<Rightarrow> nat option" where
  "digit_val c =
     (let n = of_char c :: nat in if 48 \<le> n \<and> n \<le> 57 then Some (n - 48) else None)"

fun digits_val :: "nat \<Rightarrow> string \<Rightarrow> nat option" where
  "digits_val acc [] = Some acc"
| "digits_val acc (c # cs) =
     (case digit_val c of None \<Rightarrow> None | Some d \<Rightarrow> digits_val (10 * acc + d) cs)"

definition unsigned_lit :: "string \<Rightarrow> rat option" where
  "unsigned_lit s =
     (let ip = takeWhile (\<lambda>c. c \<noteq> CHR ''.'') s;
          fp = drop 1 (dropWhile (\<lambda>c. c \<noteq> CHR ''.'') s)
      in if ip = [] then None
         else (case digits_val 0 ip of
                 None \<Rightarrow> None
               | Some a \<Rightarrow>
                   (case digits_val 0 fp of
                      None \<Rightarrow> None
                    | Some b \<Rightarrow> Some (of_nat a + of_nat b / 10 ^ length fp))))"

definition lit_float :: "string \<Rightarrow> rat option" where
  "lit_float s =
     (case s of
        [] \<Rightarrow> None
      | c # cs \<Rightarrow>
          if c = CHR ''-'' then map_option uminus (unsigned_lit cs)
          else if c = CHR ''+'' then unsigned_lit cs
          else unsigned_lit s)"

definition lit_int :: "rat \<Rightarrow> py_error + int" where
  "lit_int q = Inr (if 0 \<le> q then \<lfloor>q\<rfloor> else - \<lfloor>- q\<rfloor>)"

definition digit_char :: "nat \<Rightarrow> char" where
  "digit_char d = char_of (48 + d)"

text \<open>\<^verbatim>\<open>str\<close> of a Python \<^verbatim>\<open>int\<close>: its decimal digits, with a minus sign when negative.\<close>

function str_nat :: "nat \<Rightarrow> string" where
  "str_nat n = (if n < 10 then [digit_char n] else str_nat (n div 10) @ [digit_char (n mod 10)])"
  by pat_completeness auto
termination
  by (relation "measure (\<lambda>n. n)") auto

declare str_nat.simps [simp del]

definition str_int :: "int \<Rightarrow> string" where
  "str_int i = (if i < 0 then CHR ''-'' # str_nat (nat (- i)) else str_nat (nat i))"

section \<open>Input handling: \<^verbatim>\<open>MCM.__init__\<close>, \<^verbatim>\<open>fortran_bool\<close>, \<^verbatim>\<open>to_list\<close>\<close>

text \<open>
  The object built by \<^verbatim>\<open>__init__\<close>. \<open>pwd\<close> is the text of the absolute directory of
  the module, which ends with no separator unless it is the root; on such a path
  \<^verbatim>\<open>pwd / name\<close> and \<^verbatim>\<open>os.path.join(pwd, name)\<close> agree (POSIX).
\<close>

record MCM =
  path_to_bin :: string
  path_to_data :: string
  data_dtm :: string
  data_um :: string

definition os_path_join :: "string \<Rightarrow> string \<Rightarrow> string" where
  "os_path_join a b =
     (if b \<noteq> [] \<and> hd b = CHR ''/'' then b
      else if a = [] \<or> last a = CHR ''/'' then a @ b
      else a @ ''/'' @ b)"

definition MCM_init :: "string \<Rightarrow> MCM" where
  "MCM_init pwd =
     (let path_to_data' = os_path_join pwd ''data'' in
      \<lparr>path_to_bin = os_path_join pwd ''swami.x'',
       path_to_data = path_to_data',
       data_dtm = path_to_data' @ ''/'',
       data_um = os_path_join path_to_data' ''um'' @ ''/''\<rparr>)"

definition fortran_bool :: "bool \<Rightarrow> string" where
  "fortran_bool b = (if b then ''T'' else ''F'')"

text \<open>
  Python objects as the adapter meets them: a number, or a list of objects (the lists
  that \<^verbatim>\<open>tolist\<close> and \<^verbatim>\<open>list\<close> return may be nested).
\<close>

datatype 'v py_value = PyNum 'v | PyList "'v py_value list"

text \<open>
  A NumPy array: a 0-d array holds one element; an array of one or more dimensions is
  the sequence of its sub-arrays along the first axis (the elements themselves, as
  \<open>Item\<close>s, when it is one-dimensional). \<^verbatim>\<open>x.tolist()\<close> returns the bare element for a
  0-d array and a list, nested to the depth of the array, otherwise.
\<close>

datatype 'v ndarray = Item 'v | Axis "'v ndarray list"

fun tolist :: "'v ndarray \<Rightarrow> 'v py_value" where
  "tolist (Item v) = PyNum v"
| "tolist (Axis subs) = PyList (map tolist subs)"

text \<open>
  What a caller may pass for one variable: a Python or NumPy scalar, a NumPy array,
  another iterable (a list, a tuple) with its items, or a value that \<^verbatim>\<open>list\<close> cannot
  iterate (\<^verbatim>\<open>None\<close>, say), on which \<^verbatim>\<open>list(x)\<close> raises \<^verbatim>\<open>TypeError\<close>.
\<close>

datatype 'v py_input =
  Number 'v | NdArray "'v ndarray" | Iterable "'v py_value list" | NotIterable

fun to_list :: "'v py_input \<Rightarrow> py_error + 'v py_value" where
  "to_list (Number x) = Inr (PyList [PyNum x])"
| "to_list (NdArray a) = Inr (tolist a)"
| "to_list (Iterable xs) = Inr (PyList xs)"
| "to_list NotIterable = Inl TypeError"

section \<open>Model execution: \<^verbatim>\<open>MCM.run\<close>\<close>

definition nl :: string where
  "nl = [CHR 0x0A]"

text \<open>\<^verbatim>\<open>sep.join(strings)\<close>.\<close>

fun join :: "string \<Rightarrow> string list \<Rightarrow> string" where
  "join sep [] = []"
| "join sep [x] = x"
| "join sep (x # y # ys) = x @ sep @ join sep (y # ys)"

text \<open>
  \<^verbatim>\<open>len(x)\<close> raises \<^verbatim>\<open>TypeError\<close> on a number. \<open>py_items\<close> gives the items that iterating
  a list yields; \<^verbatim>\<open>run\<close> iterates only what \<^verbatim>\<open>len\<close> has accepted, so the value on a number
  is never used. \<^verbatim>\<open>str(x)\<close> of a number is the builtin \<open>pystr\<close>, and of a list the
  bracketed representations of its items (for a number the same text as \<^verbatim>\<open>str\<close>).
\<close>

fun py_len :: "'v py_value \<Rightarrow> py_error + nat" where
  "py_len (PyNum v) = Inl TypeError"
| "py_len (PyList xs) = Inr (length xs)"

fun py_items :: "'v py_value \<Rightarrow> 'v py_value list" where
  "py_items (PyNum v) = []"
| "py_items (PyList xs) = xs"

fun py_str :: "('v \<Rightarrow> string) \<Rightarrow> 'v py_value \<Rightarrow> string" where
  "py_str pystr (PyNum v) = pystr v"
| "py_str pystr (PyList xs) = ''['' @ join '', '' (map (py_str pystr) xs) @ '']''"

text \<open>
  The text \<open>inputData\<close> that \<^verbatim>\<open>run\<close> builds from the items of the nine lists and the
  two flags.
\<close>

definition inputData ::
  "MCM \<Rightarrow> ('v \<Rightarrow> string) \<Rightarrow> 'v py_value list \<Rightarrow> 'v py_value list \<Rightarrow> 'v py_value list \<Rightarrow>
   'v py_value list \<Rightarrow> 'v py_value list \<Rightarrow> 'v py_value list \<Rightarrow> 'v py_value list \<Rightarrow>
   'v py_value list \<Rightarrow> 'v py_value list \<Rightarrow> bool \<Rightarrow> bool \<Rightarrow> string" where
  "inputData self pystr altitude_l day_of_year_l local_time_l latitude_l longitude_l
     f107_l f107m_l kp1_l kp2_l get_uncertainty get_winds =
     (let size = length altitude_l in
      str_nat size @ nl
      @ join '' '' (map (py_str pystr) altitude_l) @ nl
      @ join '' '' (map (py_str pystr) day_of_year_l) @ nl
      @ join '' '' (map (py_str pystr) local_time_l) @ nl
      @ join '' '' (map (py_str pystr) latitude_l) @ nl
      @ join '' '' (map (py_str pystr) longitude_l) @ nl
      @ join '' '' (map (py_str pystr) f107_l) @ nl
      @ join '' '' (map (py_str pystr) f107m_l) @ nl
      @ join '' '' (map (py_str pystr) kp1_l) @ nl
      @ join '' '' (map (py_str pystr) kp2_l) @ nl
      @ fortran_bool get_winds @ nl
      @ fortran_bool get_uncertainty @ nl
      @ data_dtm self @ nl
      @ data_um self @ nl)"

definition bind :: "'e + 'a \<Rightarrow> ('a \<Rightarrow> 'e + 'b) \<Rightarrow> 'e + 'b" where
  "bind r f = (case r of Inl e \<Rightarrow> Inl e | Inr x \<Rightarrow> f x)"

text \<open>
  \<^verbatim>\<open>run\<close> up to the call of the executable: the nine \<^verbatim>\<open>to_list\<close> calls in order, the
  nine \<^verbatim>\<open>len\<close> calls in order, the check that the set of the nine lengths has one
  element (\<^verbatim>\<open>ValueError\<close> otherwise), then \<open>inputData\<close>.
\<close>

definition run_inputData ::
  "MCM \<Rightarrow> ('v \<Rightarrow> string) \<Rightarrow> 'v py_input \<Rightarrow> 'v py_input \<Rightarrow> 'v py_input \<Rightarrow> 'v py_input \<Rightarrow>
   'v py_input \<Rightarrow> 'v py_input \<Rightarrow> 'v py_input \<Rightarrow> 'v py_input \<Rightarrow> 'v py_input \<Rightarrow> bool \<Rightarrow> bool \<Rightarrow>
   py_error + string" where
  "run_inputData self pystr altitude_x day_of_year_x local_time_x latitude_x longitude_x
     f107_x f107m_x kp1_x kp2_x get_uncertainty get_winds =
     bind (to_list altitude_x) (\<lambda>altitude_l.
     bind (to_list day_of_year_x) (\<lambda>day_of_year_l.
     bind (to_list local_time_x) (\<lambda>local_time_l.
     bind (to_list latitude_x) (\<lambda>latitude_l.
     bind (to_list longitude_x) (\<lambda>longitude_l.
     bind (to_list f107_x) (\<lambda>f107_l.
     bind (to_list f107m_x) (\<lambda>f107m_l.
     bind (to_list kp1_x) (\<lambda>kp1_l.
     bind (to_list kp2_x) (\<lambda>kp2_l.
     bind (py_len altitude_l) (\<lambda>n1.
     bind (py_len day_of_year_l) (\<lambda>n2.
     bind (py_len local_time_l) (\<lambda>n3.
     bind (py_len latitude_l) (\<lambda>n4.
     bind (py_len longitude_l) (\<lambda>n5.
     bind (py_len f107_l) (\<lambda>n6.
     bind (py_len f107m_l) (\<lambda>n7.
     bind (py_len kp1_l) (\<lambda>n8.
     bind (py_len kp2_l) (\<lambda>n9.
       let lengths = {n1, n2, n3, n4, n5, n6, n7, n8, n9}
       in if card lengths \<noteq> 1 then Inl ValueError
          else Inr (inputData self pystr (py_items altitude_l) (py_items day_of_year_l)
                 (py_items local_time_l) (py_items latitude_l) (py_items longitude_l)
                 (py_items f107_l) (py_items f107m_l) (py_items kp1_l) (py_items kp2_l)
                 get_uncertainty get_winds)))))))))))))))))))"

text \<open>
  \<^verbatim>\<open>run\<close>. The executable is outside the adapter: \<open>popen bin input\<close> is what the process
  prints on the input text, or the error that \<^verbatim>\<open>Popen\<close> raises when it cannot start it.
  The second component of the result lists the processes that were started, each with
  the text it was sent: none when \<^verbatim>\<open>run\<close> raises before \<^verbatim>\<open>Popen\<close> or when \<^verbatim>\<open>Popen\<close> itself
  raises. The values passed in (type \<open>'i\<close>: Python ints or floats) need not be of the
  type of the floats read back (type \<open>'v\<close>).
\<close>

definition run ::
  "MCM \<Rightarrow> (string \<Rightarrow> string \<Rightarrow> py_error + string) \<Rightarrow> (string \<Rightarrow> 'v option) \<Rightarrow>
   ('v \<Rightarrow> py_error + int) \<Rightarrow> ('i \<Rightarrow> string) \<Rightarrow> 'i py_input \<Rightarrow> 'i py_input \<Rightarrow> 'i py_input \<Rightarrow>
   'i py_input \<Rightarrow> 'i py_input \<Rightarrow> 'i py_input \<Rightarrow> 'i py_input \<Rightarrow> 'i py_input \<Rightarrow> 'i py_input \<Rightarrow>
   bool \<Rightarrow> bool \<Rightarrow> (py_error + 'v MCMOutput) \<times> (string \<times> string) list" where
  "run self popen pyfloat pyint pystr altitude_x day_of_year_x local_time_x latitude_x
     longitude_x f107_x f107m_x kp1_x kp2_x get_uncertainty get_winds =
     (case run_inputData self pystr altitude_x day_of_year_x local_time_x latitude_x
             longitude_x f107_x f107m_x kp1_x kp2_x get_uncertainty get_winds of
        Inl e \<Rightarrow> (Inl e, [])
      | Inr inp \<Rightarrow>
          (case popen (path_to_bin self) inp of
             Inl e \<Rightarrow> (Inl e, [])
           | Inr out \<Rightarrow> (read_output pyfloat pyint out, [(path_to_bin self, inp)])))"

section \<open>Notions used to state the properties\<close>

text \<open>
  The \<open>i\<close>-th chunk of \<open>N\<close> values of \<open>vs\<close>, as a field: the bare value when \<open>N = 1\<close>,
  the sequence otherwise.
\<close>

definition chunk :: "int \<Rightarrow> 'v list \<Rightarrow> nat \<Rightarrow> 'v field" where
  "chunk N vs i = (if N = 1 then Scalar (vs ! i) else Seq (take (nat N) (drop (i * nat N) vs)))"

definition fields :: "'v MCMOutput \<Rightarrow> 'v field list" where
  "fields r = [altitude r, day_of_year r, local_time r, latitude r, longitude r, f107 r,
     f107m r, kp1 r, kp2 r, dens r, temp r, wmm r, d_H r, d_He r, d_O r, d_N2 r, d_O2 r,
     d_N r, tinf r, dens_unc r, dens_std r, xwind r, ywind r, xwind_std r, ywind_std r]"

fun is_scalar :: "'v field \<Rightarrow> bool" where
  "is_scalar (Scalar a) = True"
| "is_scalar (Seq xs) = False"

text \<open>The number of points a field holds.\<close>

fun cardinality :: "'v field \<Rightarrow> nat" where
  "cardinality (Scalar a) = 1"
| "cardinality (Seq xs) = length xs"

text \<open>
  The numbers of an object, of an array and of an input, read in order; the inputs on
  which a list is to be expected; and, for telling ints from floats, Python numbers with
  the sequences of floats among the objects.
\<close>

fun numbers :: "'v py_value \<Rightarrow> 'v list" where
  "numbers (PyNum v) = [v]"
| "numbers (PyList xs) = concat (map numbers xs)"

fun elements :: "'v ndarray \<Rightarrow> 'v list" where
  "elements (Item v) = [v]"
| "elements (Axis subs) = concat (map elements subs)"

fun numbers_in :: "'v py_input \<Rightarrow> 'v list" where
  "numbers_in (Number x) = [x]"
| "numbers_in (NdArray a) = elements a"
| "numbers_in (Iterable xs) = concat (map numbers xs)"
| "numbers_in NotIterable = []"

fun sequence_shape :: "'v py_input \<Rightarrow> bool" where
  "sequence_shape (Number x) = True"
| "sequence_shape (NdArray (Item v)) = False"
| "sequence_shape (NdArray (Axis subs)) = True"
| "sequence_shape (Iterable xs) = True"
| "sequence_shape NotIterable = False"

datatype py_num = PyInt int | PyFloat rat

fun is_float :: "py_num py_value \<Rightarrow> bool" where
  "is_float (PyNum (PyFloat q)) = True"
| "is_float (PyNum (PyInt i)) = False"
| "is_float (PyList xs) = False"

fun float_sequence :: "py_num py_value \<Rightarrow> bool" where
  "float_sequence (PyNum n) = False"
| "float_sequence (PyList xs) = list_all is_float xs"

text \<open>A text block of lines, each ended by a newline, and the lines of a text.\<close>

definition unlines :: "string list \<Rightarrow> string" where
  "unlines ls = concat (map (\<lambda>l. l @ nl) ls)"

fun lines_run :: "string \<Rightarrow> string \<Rightarrow> string list" where
  "lines_run w [] = (if w = [] then [] else [w])"
| "lines_run w (c # cs) = (if c = CHR 0x0A then w # lines_run [] cs else lines_run (w @ [c]) cs)"

definition lines_of :: "string \<Rightarrow> string list" where
  "lines_of s = lines_run [] s"

section \<open>Lemmas on the parser\<close>

lemma map_float_Inr_iff: "(map_float f ts = Inr vs) = (map f ts = map Some vs)"
proof (induction ts arbitrary: vs)
  case Nil
  show ?case by auto
next
  case (Cons t ts)
  show ?case
  proof (cases "f t")
    case None
    then show ?thesis by (cases vs) auto
  next
    case (Some v)
    show ?thesis
    proof (cases "map_float f ts")
      case (Inl e)
      with Cons.IH have "\<And>ws. map f ts \<noteq> map Some ws" by simp
      with Some Inl show ?thesis by (cases vs) auto
    next
      case (Inr ws)
      with Cons.IH [of ws] have "map f ts = map Some ws" by simp
      with Some Inr show ?thesis by (cases vs) (auto dest: map_inj_on)
    qed
  qed
qed

lemma map_float_Inl: "map_float f ts = Inl e \<Longrightarrow> e = ValueError"
  by (induction ts) (auto split: option.splits sum.splits)

lemma map_float_None: "t \<in> set ts \<Longrightarrow> f t = None \<Longrightarrow> map_float f ts = Inl ValueError"
  by (induction ts) (auto split: option.splits sum.splits dest: map_float_Inl)

lemma slice_to_nonneg: "0 \<le> k \<Longrightarrow> slice_to xs k = take (nat k) xs"
  by (simp add: slice_to_def slice_bound_def min_def)

lemma slice_from_nonneg: "0 \<le> k \<Longrightarrow> slice_from xs k = drop (nat k) xs"
  by (simp add: slice_from_def slice_bound_def min_def)

lemma chunk_drop: "0 \<le> N \<Longrightarrow> nat N \<le> length vs \<Longrightarrow> chunk N (drop (nat N) vs) i = chunk N vs (Suc i)"
  by (simp add: chunk_def add.commute)

lemma read_arrays_full:
  "0 \<le> N \<Longrightarrow> k * nat N \<le> length vs \<Longrightarrow>
   read_arrays k N vs acc = Inr (acc @ map (chunk N vs) [0..<k])"
proof (induction k arbitrary: vs acc)
  case 0
  then show ?case by simp
next
  case (Suc k)
  from Suc.prems have N: "0 \<le> N" and len: "nat N \<le> length vs"
    and rest: "k * nat N \<le> length (drop (nat N) vs)" by auto
  have step: "read_arrays k N (drop (nat N) vs) (acc @ [chunk N vs 0])
      = Inr (acc @ map (chunk N vs) [0..<Suc k])"
    using Suc.IH [OF Suc.prems(1) rest, of "acc @ [chunk N vs 0]"] N len
    by (simp add: chunk_drop map_upt_Suc del: upt_Suc)
  show ?case
  proof (cases "N = 1")
    case True
    with len obtain a rest' where vs: "vs = a # rest'" by (cases vs) auto
    with True step show ?thesis
      by (simp add: slice_to_nonneg slice_from_nonneg chunk_def del: upt_Suc)
  next
    case False
    with step N show ?thesis
      by (simp add: slice_to_nonneg slice_from_nonneg chunk_def del: upt_Suc)
  qed
qed

lemma read_output_tokens:
  "map_float pyfloat (split (strip out)) = Inr (n # vs) \<Longrightarrow> pyint n = Inr N \<Longrightarrow>
   read_output pyfloat pyint out =
     (case read_arrays 25 N vs [] of Inl e \<Rightarrow> Inl e | Inr arrays \<Rightarrow> unpack arrays)"
  by (simp add: read_output_def)

lemma unpack_map:
  "unpack (map f [0..<25]) = Inr \<lparr>altitude = f 0, day_of_year = f 1, local_time = f 2,
        latitude = f 3, longitude = f 4, f107 = f 5, f107m = f 6,
        kp1 = f 7, kp2 = f 8, dens = f 9, temp = f 10,
        wmm = f 11, d_H = f 12, d_He = f 13, d_O = f 14,
        d_N2 = f 15, d_O2 = f 16, d_N = f 17, tinf = f 18,
        dens_unc = f 19, dens_std = f 20, xwind = f 21,
        ywind = f 22, xwind_std = f 23, ywind_std = f 24\<rparr>"
  by (simp add: unpack_def nth_map_upt numeral_2_eq_2 del: upt_Suc upt_rec_numeral)


lemma tokens_ex1: "split (strip (''1 '' @ concat (replicate 25 ''1.0 ''))) = ''1'' # replicate 25 ''1.0''"
  by code_simp

lemma tokens_ex2: "split (strip (''2 '' @ concat (replicate 25 ''1.0 2.0 ''))) = ''2'' # concat (replicate 25 [''1.0'', ''2.0''])"
  by code_simp

lemma chunk_ex1: "i < 25 \<Longrightarrow> chunk 1 (replicate 25 a) i = Scalar a"
  by (simp add: chunk_def)

lemma take_drop_concat_replicate:
  "i < k \<Longrightarrow> take (length xs) (drop (i * length xs) (concat (replicate k xs))) = xs"
proof (induction k arbitrary: i)
  case 0
  then show ?case by simp
next
  case (Suc k)
  show ?case
  proof (cases i)
    case 0
    then show ?thesis by simp
  next
    case (Suc j)
    with Suc.prems have "j < k" by simp
    from Suc.IH [OF this] Suc show ?thesis by (simp add: add.commute)
  qed
qed

lemma chunk_ex2: "i < 25 \<Longrightarrow> chunk 2 (concat (replicate 25 [a, b])) i = Seq [a, b]"
  using take_drop_concat_replicate [of i 25 "[a, b]"] by (simp add: chunk_def numeral_2_eq_2)


lemma read_output_full:
  assumes toks: "map_float pyfloat (split (strip out)) = Inr (n # vs)" and n: "pyint n = Inr N"
    and N: "0 \<le> N" and len: "25 * N \<le> int (length vs)"
  shows "read_output pyfloat pyint out = unpack (map (chunk N vs) [0..<25])"
proof -
  from N len have "25 * nat N \<le> length vs" by linarith
  from read_arrays_full [OF N this, of "[]"]
  have "read_arrays 25 N vs [] = Inr (map (chunk N vs) [0..<25])" by simp
  with read_output_tokens [of pyfloat out n vs pyint N, OF toks n] show ?thesis
    by (simp only: sum.case)
qed

lemma map_chunk_ex1: "map (chunk 1 (replicate 25 a)) [0..<25] = map (\<lambda>i. Scalar a) [0..<25]"
  by (rule map_cong) (simp_all add: chunk_ex1)

lemma map_chunk_ex2:
  "map (chunk 2 (concat (replicate 25 [a, b]))) [0..<25] = map (\<lambda>i. Seq [a, b]) [0..<25]"
  by (rule map_cong) (simp_all add: chunk_ex2)

lemma map_float_replicate: "pyfloat t = Some a \<Longrightarrow> map_float pyfloat (replicate k t) = Inr (replicate k a)"
  by (simp add: map_float_Inr_iff)

lemma map_float_concat_replicate:
  "pyfloat t = Some a \<Longrightarrow> pyfloat u = Some b \<Longrightarrow>
   map_float pyfloat (concat (replicate k [t, u])) = Inr (concat (replicate k [a, b]))"
  unfolding map_float_Inr_iff by (induction k) simp_all

section \<open>The response parser on well-formed output\<close>

text \<open>
  C1. When every token of the output text is a float, the first token gives \<open>N \<ge> 1\<close>
  and at least \<open>25 * N\<close> values follow, \<^verbatim>\<open>_read_output\<close> returns the record whose fields,
  in the order altitude, day_of_year, local_time, latitude, longitude, f107, f107m, kp1,
  kp2, dens, temp, wmm, d_H, d_He, d_O, d_N2, d_O2, d_N, tinf, dens_unc, dens_std, xwind,
  ywind, xwind_std, ywind_std, are the 25 consecutive chunks of \<open>N\<close> values: bare values
  when \<open>N = 1\<close>, sequences otherwise. On \<^verbatim>\<open>"1 " + "1.0 "*25\<close> every field is the value of
  \<^verbatim>\<open>1.0\<close>, and on \<^verbatim>\<open>"2 " + "1.0 2.0 "*25\<close> every field is the sequence of the values of
  \<^verbatim>\<open>1.0\<close> and \<^verbatim>\<open>2.0\<close>.
\<close>

theorem read_output_chunks:
  "(map_float pyfloat (split (strip out)) = Inr (n # vs) \<and> pyint n = Inr N \<and> 1 \<le> N \<and>
      25 * N \<le> int (length vs) \<longrightarrow>
    read_output pyfloat pyint out =
      Inr \<lparr>altitude = chunk N vs 0, day_of_year = chunk N vs 1, local_time = chunk N vs 2,
        latitude = chunk N vs 3, longitude = chunk N vs 4, f107 = chunk N vs 5,
        f107m = chunk N vs 6, kp1 = chunk N vs 7, kp2 = chunk N vs 8, dens = chunk N vs 9,
        temp = chunk N vs 10, wmm = chunk N vs 11, d_H = chunk N vs 12, d_He = chunk N vs 13,
        d_O = chunk N vs 14, d_N2 = chunk N vs 15, d_O2 = chunk N vs 16, d_N = chunk N vs 17,
        tinf = chunk N vs 18, dens_unc = chunk N vs 19, dens_std = chunk N vs 20,
        xwind = chunk N vs 21, ywind = chunk N vs 22, xwind_std = chunk N vs 23,
        ywind_std = chunk N vs 24\<rparr>)
   \<and> (pyfloat ''1'' = Some one \<and> pyint one = Inr 1 \<and> pyfloat ''1.0'' = Some a \<longrightarrow>
    read_output pyfloat pyint (''1 '' @ concat (replicate 25 ''1.0 '')) =
      Inr \<lparr>altitude = Scalar a, day_of_year = Scalar a, local_time = Scalar a,
        latitude = Scalar a, longitude = Scalar a, f107 = Scalar a, f107m = Scalar a,
        kp1 = Scalar a, kp2 = Scalar a, dens = Scalar a, temp = Scalar a, wmm = Scalar a,
        d_H = Scalar a, d_He = Scalar a, d_O = Scalar a, d_N2 = Scalar a, d_O2 = Scalar a,
        d_N = Scalar a, tinf = Scalar a, dens_unc = Scalar a, dens_std = Scalar a,
        xwind = Scalar a, ywind = Scalar a, xwind_std = Scalar a, ywind_std = Scalar a\<rparr>)
   \<and> (pyfloat ''2'' = Some two \<and> pyint two = Inr 2 \<and> pyfloat ''1.0'' = Some a \<and>
      pyfloat ''2.0'' = Some b \<longrightarrow>
    read_output pyfloat pyint (''2 '' @ concat (replicate 25 ''1.0 2.0 '')) =
      Inr \<lparr>altitude = Seq [a, b], day_of_year = Seq [a, b], local_time = Seq [a, b],
        latitude = Seq [a, b], longitude = Seq [a, b], f107 = Seq [a, b], f107m = Seq [a, b],
        kp1 = Seq [a, b], kp2 = Seq [a, b], dens = Seq [a, b], temp = Seq [a, b],
        wmm = Seq [a, b], d_H = Seq [a, b], d_He = Seq [a, b], d_O = Seq [a, b],
        d_N2 = Seq [a, b], d_O2 = Seq [a, b], d_N = Seq [a, b], tinf = Seq [a, b],
        dens_unc = Seq [a, b], dens_std = Seq [a, b], xwind = Seq [a, b],
        ywind = Seq [a, b], xwind_std = Seq [a, b], ywind_std = Seq [a, b]\<rparr>)"
proof (intro conjI impI; elim conjE)
  assume toks: "map_float pyfloat (split (strip out)) = Inr (n # vs)" and n: "pyint n = Inr N"
    and N: "1 \<le> N" and len: "25 * N \<le> int (length vs)"
  from N have "0 \<le> N" by simp
  from read_output_full [of pyfloat out n vs pyint N, OF toks n this len] show "read_output pyfloat pyint out =
      Inr \<lparr>altitude = chunk N vs 0, day_of_year = chunk N vs 1, local_time = chunk N vs 2,
        latitude = chunk N vs 3, longitude = chunk N vs 4, f107 = chunk N vs 5,
        f107m = chunk N vs 6, kp1 = chunk N vs 7, kp2 = chunk N vs 8, dens = chunk N vs 9,
        temp = chunk N vs 10, wmm = chunk N vs 11, d_H = chunk N vs 12, d_He = chunk N vs 13,
        d_O = chunk N vs 14, d_N2 = chunk N vs 15, d_O2 = chunk N vs 16, d_N = chunk N vs 17,
        tinf = chunk N vs 18, dens_unc = chunk N vs 19, dens_std = chunk N vs 20,
        xwind = chunk N vs 21, ywind = chunk N vs 22, xwind_std = chunk N vs 23,
        ywind_std = chunk N vs 24\<rparr>"
    by (simp only: unpack_map)
next
  assume one: "pyfloat ''1'' = Some one" and n: "pyint one = Inr 1" and a: "pyfloat ''1.0'' = Some a"
  have toks: "map_float pyfloat (split (strip (''1 '' @ concat (replicate 25 ''1.0 '')))) =
      Inr (one # replicate 25 a)"
    using one map_float_replicate [of pyfloat "''1.0''" a 25, OF a] by (simp only: tokens_ex1 map_float.simps) simp
  have "read_output pyfloat pyint (''1 '' @ concat (replicate 25 ''1.0 '')) =
      unpack (map (chunk 1 (replicate 25 a)) [0..<25])"
    by (rule read_output_full [of pyfloat _ one "replicate 25 a" pyint 1, OF toks n]) simp_all
  then show "read_output pyfloat pyint (''1 '' @ concat (replicate 25 ''1.0 '')) =
      Inr \<lparr>altitude = Scalar a, day_of_year = Scalar a, local_time = Scalar a,
        latitude = Scalar a, longitude = Scalar a, f107 = Scalar a, f107m = Scalar a,
        kp1 = Scalar a, kp2 = Scalar a, dens = Scalar a, temp = Scalar a, wmm = Scalar a,
        d_H = Scalar a, d_He = Scalar a, d_O = Scalar a, d_N2 = Scalar a, d_O2 = Scalar a,
        d_N = Scalar a, tinf = Scalar a, dens_unc = Scalar a, dens_std = Scalar a,
        xwind = Scalar a, ywind = Scalar a, xwind_std = Scalar a, ywind_std = Scalar a\<rparr>"
    by (simp only: map_chunk_ex1 unpack_map)
next
  assume two: "pyfloat ''2'' = Some two" and n: "pyint two = Inr 2" and a: "pyfloat ''1.0'' = Some a"
    and b: "pyfloat ''2.0'' = Some b"
  have toks: "map_float pyfloat (split (strip (''2 '' @ concat (replicate 25 ''1.0 2.0 '')))) =
      Inr (two # concat (replicate 25 [a, b]))"
    using two map_float_concat_replicate [of pyfloat "''1.0''" a "''2.0''" b 25, OF a b]
    by (simp only: tokens_ex2 map_float.simps) simp
  have "read_output pyfloat pyint (''2 '' @ concat (replicate 25 ''1.0 2.0 '')) =
      unpack (map (chunk 2 (concat (replicate 25 [a, b]))) [0..<25])"
    by (rule read_output_full [of pyfloat _ two "concat (replicate 25 [a, b])" pyint 2, OF toks n])
      (simp_all add: length_concat sum_list_replicate)
  then show "read_output pyfloat pyint (''2 '' @ concat (replicate 25 ''1.0 2.0 '')) =
      Inr \<lparr>altitude = Seq [a, b], day_of_year = Seq [a, b], local_time = Seq [a, b],
        latitude = Seq [a, b], longitude = Seq [a, b], f107 = Seq [a, b], f107m = Seq [a, b],
        kp1 = Seq [a, b], kp2 = Seq [a, b], dens = Seq [a, b], temp = Seq [a, b],
        wmm = Seq [a, b], d_H = Seq [a, b], d_He = Seq [a, b], d_O = Seq [a, b],
        d_N2 = Seq [a, b], d_O2 = Seq [a, b], d_N = Seq [a, b], tinf = Seq [a, b],
        dens_unc = Seq [a, b], dens_std = Seq [a, b], xwind = Seq [a, b],
        ywind = Seq [a, b], xwind_std = Seq [a, b], ywind_std = Seq [a, b]\<rparr>"
    by (simp only: map_chunk_ex2 unpack_map)
qed


lemma lit_tokens_order:
  "map_float lit_float (split (strip ''1 1 2 3 4 5 6 7 8 9 10 11 12 13 14 15 16 17 18 19 20 21 22 23 24 25'')) =
     Inr (1 # [1, 2, 3, 4, 5, 6, 7, 8, 9, 10, 11, 12, 13, 14, 15, 16, 17, 18, 19, 20, 21, 22, 23, 24, 25])"
  by code_simp

lemma lit_float_1: "lit_float ''1'' = Some 1" by code_simp
lemma lit_float_2: "lit_float ''2'' = Some 2" by code_simp
lemma lit_float_1_0: "lit_float ''1.0'' = Some 1" by code_simp
lemma lit_float_2_0: "lit_float ''2.0'' = Some 2" by code_simp
lemma lit_int_1: "lit_int 1 = Inr 1" by (simp add: lit_int_def)
lemma lit_int_2: "lit_int 2 = Inr 2" by (simp add: lit_int_def)

theorem read_output_chunks_witness:
  "read_output lit_float lit_int ''1 1 2 3 4 5 6 7 8 9 10 11 12 13 14 15 16 17 18 19 20 21 22 23 24 25'' =
     Inr
      \<lparr>altitude = Scalar 1, day_of_year = Scalar 2, local_time = Scalar 3,
        latitude = Scalar 4, longitude = Scalar 5, f107 = Scalar 6, f107m = Scalar 7,
        kp1 = Scalar 8, kp2 = Scalar 9, dens = Scalar 10, temp = Scalar 11, wmm = Scalar 12,
        d_H = Scalar 13, d_He = Scalar 14, d_O = Scalar 15, d_N2 = Scalar 16,
        d_O2 = Scalar 17, d_N = Scalar 18, tinf = Scalar 19, dens_unc = Scalar 20,
        dens_std = Scalar 21, xwind = Scalar 22, ywind = Scalar 23, xwind_std = Scalar 24,
        ywind_std = Scalar 25\<rparr>
   \<and> read_output lit_float lit_int (''1 '' @ concat (replicate 25 ''1.0 '')) =
     Inr
      \<lparr>altitude = Scalar 1, day_of_year = Scalar 1, local_time = Scalar 1,
        latitude = Scalar 1, longitude = Scalar 1, f107 = Scalar 1, f107m = Scalar 1,
        kp1 = Scalar 1, kp2 = Scalar 1, dens = Scalar 1, temp = Scalar 1, wmm = Scalar 1,
        d_H = Scalar 1, d_He = Scalar 1, d_O = Scalar 1, d_N2 = Scalar 1, d_O2 = Scalar 1,
        d_N = Scalar 1, tinf = Scalar 1, dens_unc = Scalar 1, dens_std = Scalar 1,
        xwind = Scalar 1, ywind = Scalar 1, xwind_std = Scalar 1, ywind_std = Scalar 1\<rparr>
   \<and> read_output lit_float lit_int (''2 '' @ concat (replicate 25 ''1.0 2.0 '')) =
     Inr
      \<lparr>altitude = Seq [1, 2], day_of_year = Seq [1, 2], local_time = Seq [1, 2],
        latitude = Seq [1, 2], longitude = Seq [1, 2], f107 = Seq [1, 2], f107m = Seq [1, 2],
        kp1 = Seq [1, 2], kp2 = Seq [1, 2], dens = Seq [1, 2], temp = Seq [1, 2],
        wmm = Seq [1, 2], d_H = Seq [1, 2], d_He = Seq [1, 2], d_O = Seq [1, 2],
        d_N2 = Seq [1, 2], d_O2 = Seq [1, 2], d_N = Seq [1, 2], tinf = Seq [1, 2],
        dens_unc = Seq [1, 2], dens_std = Seq [1, 2], xwind = Seq [1, 2], ywind = Seq [1, 2],
        xwind_std = Seq [1, 2], ywind_std = Seq [1, 2]\<rparr>"
  using read_output_chunks [of lit_float
      "''1 1 2 3 4 5 6 7 8 9 10 11 12 13 14 15 16 17 18 19 20 21 22 23 24 25''" 1
      "[1, 2, 3, 4, 5, 6, 7, 8, 9, 10, 11, 12, 13, 14, 15, 16, 17, 18, 19, 20, 21, 22, 23, 24, 25]"
      lit_int 1 1 1 2 2]
    lit_tokens_order lit_float_1 lit_float_2 lit_float_1_0 lit_float_2_0 lit_int_1 lit_int_2
  by (simp add: chunk_def)

lemma read_arrays_one_short: "length vs < k \<Longrightarrow> read_arrays k 1 vs acc = Inl IndexError"
proof (induction k arbitrary: vs acc)
  case 0
  then show ?case by simp
next
  case (Suc k)
  show ?case
  proof (cases vs)
    case Nil
    then show ?thesis by (simp add: slice_to_def slice_bound_def)
  next
    case (Cons a rest)
    with Suc.prems have "length rest < k" by simp
    from Suc.IH [OF this] Cons show ?thesis
      by (simp add: slice_to_def slice_from_def slice_bound_def)
  qed
qed

lemma read_arrays_kind:
  "read_arrays k N vs acc = Inr res \<Longrightarrow>
   \<exists>arrs. res = acc @ arrs \<and> length arrs = k \<and> (\<forall>f\<in>set arrs. is_scalar f = (N = 1))"
proof (induction k arbitrary: vs acc res)
  case 0
  then show ?case by simp
next
  case (Suc k)
  show ?case
  proof (cases "N = 1")
    case True
    with Suc.prems obtain a where
      rec: "read_arrays k N (slice_from vs N) (acc @ [Scalar a]) = Inr res"
      by (auto simp: Let_def split: list.splits)
    from Suc.IH [OF rec] obtain arrs where "res = (acc @ [Scalar a]) @ arrs" "length arrs = k"
      "\<forall>f\<in>set arrs. is_scalar f = (N = 1)" by blast
    with True show ?thesis by (intro exI [of _ "Scalar a # arrs"]) simp
  next
    case False
    with Suc.prems have
      rec: "read_arrays k N (slice_from vs N) (acc @ [Seq (slice_to vs N)]) = Inr res"
      by (simp add: Let_def)
    from Suc.IH [OF rec] obtain arrs where "res = (acc @ [Seq (slice_to vs N)]) @ arrs"
      "length arrs = k" "\<forall>f\<in>set arrs. is_scalar f = (N = 1)" by blast
    with False show ?thesis by (intro exI [of _ "Seq (slice_to vs N) # arrs"]) simp
  qed
qed

lemma read_arrays_seq:
  "0 \<le> N \<Longrightarrow> N \<noteq> 1 \<Longrightarrow> read_arrays k N vs acc = Inr (acc @ map (chunk N vs) [0..<k])"
proof (induction k arbitrary: vs acc)
  case 0
  then show ?case by simp
next
  case (Suc k)
  have shift: "map (chunk N (drop (nat N) vs)) [0..<k] = map (\<lambda>i. chunk N vs (Suc i)) [0..<k]"
    using Suc.prems by (simp add: chunk_def add.commute)
  from Suc.IH [OF Suc.prems, of "drop (nat N) vs" "acc @ [chunk N vs 0]"] Suc.prems shift
  show ?case
    by (simp add: slice_to_nonneg slice_from_nonneg chunk_def map_upt_Suc del: upt_Suc)
qed

lemma read_arrays_neg:
  "N \<noteq> 1 \<Longrightarrow> \<exists>arrs. read_arrays k N vs acc = Inr (acc @ arrs) \<and> length arrs = k"
proof (induction k arbitrary: vs acc)
  case 0
  then show ?case by simp
next
  case (Suc k)
  from Suc.IH [OF Suc.prems, of "slice_from vs N" "acc @ [Seq (slice_to vs N)]"]
  obtain arrs where "read_arrays k N (slice_from vs N) (acc @ [Seq (slice_to vs N)]) =
      Inr ((acc @ [Seq (slice_to vs N)]) @ arrs)" "length arrs = k" by blast
  with Suc.prems show ?case by (intro exI [of _ "Seq (slice_to vs N) # arrs"]) simp
qed

lemma unpack_set: "unpack arrays = Inr r \<Longrightarrow> length arrays = 25 \<and> set (fields r) \<subseteq> set arrays"
  by (auto simp: unpack_def fields_def split: if_splits)

lemma unpack_length: "length arrays = 25 \<Longrightarrow> \<exists>r. unpack arrays = Inr r"
  by (simp add: unpack_def)


lemma read_output_eval:
  "map_float pyfloat (split (strip out)) = Inr (n # vs) \<Longrightarrow> pyint n = Inr N \<Longrightarrow>
   read_arrays 25 N vs [] = Inr arrays \<Longrightarrow> unpack arrays = res \<Longrightarrow>
   read_output pyfloat pyint out = res"
  by (simp add: read_output_def)

lemma chunk_index_bound:
  assumes "i < 25"
  shows "i * n + n \<le> 25 * (n::nat)"
proof -
  from assms have "Suc i \<le> 25" by simp
  then have "Suc i * n \<le> 25 * n" by (rule mult_le_mono1)
  then show ?thesis by (simp only: mult_Suc add.commute)
qed

lemma chunk_cardinality:
  assumes "0 \<le> N" "25 * nat N \<le> length vs" "i < 25"
  shows "cardinality (chunk N vs i) = nat N"
proof -
  from chunk_index_bound [OF assms(3), of "nat N"] assms(2)
  have "i * nat N + nat N \<le> length vs" by (rule le_trans)
  then have "min (length vs - i * nat N) (nat N) = nat N" by arith
  then show ?thesis by (simp add: chunk_def)
qed

lemma chunk_take:
  assumes "0 \<le> N" "i < 25"
  shows "chunk N (take (nat (25 * N)) vs) i = chunk N vs i"
proof -
  note le = chunk_index_bound [OF assms(2), of "nat N"]
  from assms(1) have eq: "nat (25 * N) = 25 * nat N" by (simp add: nat_mult_distrib)
  show ?thesis
  proof (cases "N = 1")
    case True
    with assms(2) show ?thesis by (simp add: chunk_def)
  next
    case False
    from le have "min (nat N) (25 * nat N - i * nat N) = nat N" by arith
    with False show ?thesis by (simp add: chunk_def eq drop_take)
  qed
qed

section \<open>The response parser on malformed output\<close>

text \<open>
  C6. When some whitespace-separated token of the output text is not a float literal,
  \<^verbatim>\<open>_read_output\<close> raises: the \<^verbatim>\<open>ValueError\<close> of \<^verbatim>\<open>float\<close>, which is the adapter's
  malformed-output error. Every token is converted before anything else is done, so the
  place of the token does not matter.
\<close>

theorem read_output_non_float:
  "t \<in> set (split (strip out)) \<and> pyfloat t = None \<longrightarrow>
   read_output pyfloat pyint out = Inl ValueError"
  by (auto simp: read_output_def dest: map_float_None)

lemma tokens_bad: "split (strip ''1 2.5 x 4'') = [''1'', ''2.5'', ''x'', ''4'']"
  by code_simp

lemma lit_float_x: "lit_float ''x'' = None"
  by code_simp

theorem read_output_non_float_witness:
  "''x'' \<in> set (split (strip ''1 2.5 x 4'')) \<and> lit_float ''x'' = None \<and>
   read_output lit_float lit_int ''1 2.5 x 4'' = Inl ValueError"
  using read_output_non_float [of "''x''" "''1 2.5 x 4''" lit_float lit_int] tokens_bad lit_float_x
  by simp

text \<open>
  C4, as stated, fails: on \<^verbatim>\<open>"3 1.0 2.0"\<close> (three tokens, fewer than \<open>1 + 25 * 3\<close>) no error
  is raised; slices past the end are empty, and the record holds the two values in
  \<open>altitude\<close> and empty sequences elsewhere.
\<close>

lemma lit_tokens_c4: "map_float lit_float (split (strip ''3 1.0 2.0'')) = Inr [3, 1, 2]"
  by code_simp

lemma lit_arrays_c4:
  "read_arrays 25 3 [1, 2 :: rat] [] = Inr (Seq [1, 2] # replicate 24 (Seq []))"
  by code_simp

lemma lit_int_3: "lit_int 3 = Inr 3" by (simp add: lit_int_def)

theorem read_output_short_counterexample:
  "read_output lit_float lit_int ''3 1.0 2.0'' =
     Inr
      \<lparr>altitude = Seq [1, 2], day_of_year = Seq [], local_time = Seq [],
        latitude = Seq [], longitude = Seq [], f107 = Seq [], f107m = Seq [], kp1 = Seq [],
        kp2 = Seq [], dens = Seq [], temp = Seq [], wmm = Seq [], d_H = Seq [], d_He = Seq [],
        d_O = Seq [], d_N2 = Seq [], d_O2 = Seq [], d_N = Seq [], tinf = Seq [],
        dens_unc = Seq [], dens_std = Seq [], xwind = Seq [], ywind = Seq [],
        xwind_std = Seq [], ywind_std = Seq []\<rparr>"
  by (rule read_output_eval [of lit_float _ 3 "[1, 2]" lit_int 3, OF lit_tokens_c4 lit_int_3
        lit_arrays_c4]) (simp add: unpack_def)

lemma map_float_Inr_length: "map_float f ts = Inr vs \<Longrightarrow> length vs = length ts"
proof -
  assume "map_float f ts = Inr vs"
  then have "map f ts = map Some vs" by (simp only: map_float_Inr_iff)
  then have "length (map f ts) = length (map Some vs)" by (rule arg_cong)
  then show ?thesis by simp
qed

lemma map_float_Inr_all: "map_float f ts = Inr vs \<Longrightarrow> u \<in> set ts \<Longrightarrow> f u \<noteq> None"
  by (induction ts arbitrary: vs) (auto split: option.splits sum.splits)

lemma map_float_Inl_ex: "map_float f ts = Inl e \<Longrightarrow> \<exists>u\<in>set ts. f u = None"
  by (induction ts) (auto split: option.splits sum.splits)

lemma read_output_one_short:
  assumes toks: "split (strip out) = t # ts" and t: "pyfloat t = Some n"
    and n: "pyint n = Inr 1" and len: "length ts < 25"
  shows "read_output pyfloat pyint out =
      Inl (if \<exists>u\<in>set ts. pyfloat u = None then ValueError else IndexError)"
proof (cases "map_float pyfloat ts")
  case (Inl e)
  then have e: "e = ValueError" by (rule map_float_Inl)
  from Inl have ex: "\<exists>u\<in>set ts. pyfloat u = None" by (rule map_float_Inl_ex)
  have "read_output pyfloat pyint out = Inl ValueError"
    unfolding read_output_def toks using t Inl e by simp
  with ex show ?thesis by simp
next
  case (Inr vs)
  then have "length vs = length ts" by (rule map_float_Inr_length)
  with len have "length vs < 25" by simp
  then have short: "read_arrays 25 1 vs [] = Inl IndexError" by (rule read_arrays_one_short)
  from Inr have all: "\<not> (\<exists>u\<in>set ts. pyfloat u = None)" by (blast dest: map_float_Inr_all)
  have "read_output pyfloat pyint out = Inl IndexError"
    unfolding read_output_def toks using t Inr n short by simp
  with all show ?thesis by simp
qed


lemma read_output_seq_short:
  assumes toks: "map_float pyfloat (split (strip out)) = Inr (n # vs)" and n: "pyint n = Inr N"
    and N: "N \<noteq> 1" and len: "int (length vs) < 25 * N"
  shows "\<exists>r. read_output pyfloat pyint out = Inr r \<and> cardinality (ywind_std r) < nat N"
proof -
  from len have pos: "0 \<le> N" by linarith
  have arrs: "read_arrays 25 N vs [] = Inr (map (chunk N vs) [0..<25])"
    using read_arrays_seq [OF pos N, of 25 vs "[]"] by simp
  have out: "read_output pyfloat pyint out = unpack (map (chunk N vs) [0..<25])"
    unfolding read_output_def using toks n arrs by simp
  from len pos have "length vs - 24 * nat N < nat N" by linarith
  with N have "cardinality (chunk N vs 24) < nat N" by (simp add: chunk_def)
  with out show ?thesis by (simp only: unpack_map) simp
qed

text \<open>
  C4, amended. With first token \<open>N = 1\<close> and fewer than 26 tokens, \<^verbatim>\<open>_read_output\<close> raises:
  \<^verbatim>\<open>ValueError\<close> when some token is not a float literal, \<^verbatim>\<open>IndexError\<close> (from
  \<^verbatim>\<open>arr[0]\<close> on an empty chunk) otherwise. With \<open>N \<noteq> 1\<close>, float tokens and fewer than
  \<open>25 * N\<close> values after the first, no error is raised: a record is returned whose last
  field holds fewer than \<open>N\<close> values.
\<close>

theorem read_output_short:
  "(split (strip out) = t # ts \<and> pyfloat t = Some n \<and> pyint n = Inr 1 \<and> length ts < 25 \<longrightarrow>
      read_output pyfloat pyint out =
        Inl (if \<exists>u\<in>set ts. pyfloat u = None then ValueError else IndexError))
   \<and> (map_float pyfloat (split (strip out)) = Inr (n # vs) \<and> pyint n = Inr N \<and> N \<noteq> 1 \<and>
      int (length vs) < 25 * N \<longrightarrow>
      (\<exists>r. read_output pyfloat pyint out = Inr r \<and> cardinality (ywind_std r) < nat N))"
  using read_output_one_short [of out t ts pyfloat n pyint]
    read_output_seq_short [of pyfloat out n vs pyint N]
  by blast

lemma tokens_c4w: "split (strip ''1 1.0 2.0'') = [''1'', ''1.0'', ''2.0'']"
  by code_simp

lemma lit_floats_c4w:
  "lit_float ''1'' = Some 1 \<and> lit_float ''1.0'' = Some 1 \<and> lit_float ''2.0'' = Some 2"
  by code_simp

theorem read_output_short_witness:
  "read_output lit_float lit_int ''1 1.0 2.0'' = Inl IndexError
   \<and> (\<exists>r. read_output lit_float lit_int ''3 1.0 2.0'' = Inr r \<and> cardinality (ywind_std r) < 3)"
  using read_output_short [of "''1 1.0 2.0''" "''1''" "[''1.0'', ''2.0'']" lit_float 1 lit_int
      "[]" 1]
    read_output_short [of "''3 1.0 2.0''" "''3''" "[]" lit_float 3 lit_int "[1, 2]" 3]
    tokens_c4w lit_floats_c4w lit_tokens_c4 lit_int_3
  by (simp add: lit_int_def)

text \<open>
  C5, as stated, fails: on \<^verbatim>\<open>"2 1.0 2.0 3.0"\<close> the record returned has two values in
  \<open>altitude\<close>, one in \<open>day_of_year\<close> and none in the other fields.
\<close>

lemma lit_tokens_c5: "map_float lit_float (split (strip ''2 1.0 2.0 3.0'')) = Inr [2, 1, 2, 3]"
  by code_simp

lemma lit_arrays_c5:
  "read_arrays 25 2 [1, 2, 3 :: rat] [] = Inr (Seq [1, 2] # Seq [3] # replicate 23 (Seq []))"
  by code_simp

theorem read_output_cardinality_counterexample:
  "read_output lit_float lit_int ''2 1.0 2.0 3.0'' =
     Inr
      \<lparr>altitude = Seq [1, 2], day_of_year = Seq [3], local_time = Seq [],
        latitude = Seq [], longitude = Seq [], f107 = Seq [], f107m = Seq [], kp1 = Seq [],
        kp2 = Seq [], dens = Seq [], temp = Seq [], wmm = Seq [], d_H = Seq [], d_He = Seq [],
        d_O = Seq [], d_N2 = Seq [], d_O2 = Seq [], d_N = Seq [], tinf = Seq [],
        dens_unc = Seq [], dens_std = Seq [], xwind = Seq [], ywind = Seq [],
        xwind_std = Seq [], ywind_std = Seq []\<rparr>"
  by (rule read_output_eval [of lit_float _ 2 "[1, 2, 3]" lit_int 2, OF lit_tokens_c5 _
        lit_arrays_c5]) (simp_all add: unpack_def lit_int_def)

text \<open>
  C5, amended. \<^verbatim>\<open>_read_output\<close> raises or returns a record with all 25 fields set; in
  a returned record the fields are all bare values when \<open>N = 1\<close> and all sequences
  otherwise, and they all hold \<open>N\<close> values when \<open>N \<ge> 0\<close> and at least \<open>25 * N\<close> values
  follow the first token.
\<close>

theorem read_output_cardinality:
  "read_output pyfloat pyint out = Inr r \<longrightarrow>
   (\<exists>n vs N. map_float pyfloat (split (strip out)) = Inr (n # vs) \<and> pyint n = Inr N \<and>
      (\<forall>f\<in>set (fields r). is_scalar f = (N = 1)) \<and>
      (0 \<le> N \<and> 25 * N \<le> int (length vs) \<longrightarrow> (\<forall>f\<in>set (fields r). cardinality f = nat N)))"
proof
  assume ok: "read_output pyfloat pyint out = Inr r"
  then obtain n vs N arrays where toks: "map_float pyfloat (split (strip out)) = Inr (n # vs)"
    and n: "pyint n = Inr N" and arrs: "read_arrays 25 N vs [] = Inr arrays"
    and r: "unpack arrays = Inr r"
    by (auto simp: read_output_def split: sum.splits list.splits)
  from read_arrays_kind [OF arrs] have kind: "\<forall>f\<in>set arrays. is_scalar f = (N = 1)" by auto
  from unpack_set [OF r] have sub: "set (fields r) \<subseteq> set arrays" by simp
  from kind sub have 1: "\<forall>f\<in>set (fields r). is_scalar f = (N = 1)" by blast
  have 2: "\<forall>f\<in>set (fields r). cardinality f = nat N"
    if N: "0 \<le> N" and len: "25 * N \<le> int (length vs)"
  proof -
    from N len have len': "25 * nat N \<le> length vs" by linarith
    from read_arrays_full [OF N len', of "[]"] arrs
    have "arrays = map (chunk N vs) [0..<25]" by simp
    with sub have "set (fields r) \<subseteq> chunk N vs ` {0..<25}" by simp
    with chunk_cardinality [OF N len'] show ?thesis by auto
  qed
  from toks n 1 2 show "\<exists>n vs N. map_float pyfloat (split (strip out)) = Inr (n # vs) \<and>
      pyint n = Inr N \<and> (\<forall>f\<in>set (fields r). is_scalar f = (N = 1)) \<and>
      (0 \<le> N \<and> 25 * N \<le> int (length vs) \<longrightarrow> (\<forall>f\<in>set (fields r). cardinality f = nat N))"
    by blast
qed

lemma lit_tokens_pairs:
  "map_float lit_float (split (strip (''2 '' @ concat (replicate 25 ''1.0 2.0 '')))) =
     Inr (2 # concat (replicate 25 [1, 2]))"
  by code_simp

theorem read_output_cardinality_witness:
  "\<exists>r. read_output lit_float lit_int (''2 '' @ concat (replicate 25 ''1.0 2.0 '')) = Inr r \<and>
     (\<forall>f\<in>set (fields r). \<not> is_scalar f \<and> cardinality f = 2)"
proof -
  have "read_output lit_float lit_int (''2 '' @ concat (replicate 25 ''1.0 2.0 '')) =
      unpack (map (chunk 2 (concat (replicate 25 [1, 2]))) [0..<25])"
    by (rule read_output_full [of lit_float _ 2 "concat (replicate 25 [1, 2])" lit_int 2,
          OF lit_tokens_pairs])
      (simp_all add: lit_int_def length_concat sum_list_replicate)
  then obtain r where
    r: "read_output lit_float lit_int (''2 '' @ concat (replicate 25 ''1.0 2.0 '')) = Inr r"
    by (simp only: unpack_map)
  from read_output_cardinality [of lit_float lit_int
      "''2 '' @ concat (replicate 25 ''1.0 2.0 '')" r] r lit_tokens_pairs
  have "\<forall>f\<in>set (fields r). \<not> is_scalar f \<and> cardinality f = 2"
    by (auto simp: lit_int_def length_concat sum_list_replicate)
  with r show ?thesis by blast
qed


lemma read_output_truncate:
  assumes toks: "map_float pyfloat (split (strip out)) = Inr (n # vs)"
    and toks': "map_float pyfloat (split (strip out')) = Inr (n # take (nat (25 * N)) vs)"
    and n: "pyint n = Inr N" and N: "0 \<le> N" and len: "25 * N < int (length vs)"
  shows "\<exists>r. read_output pyfloat pyint out = Inr r \<and> read_output pyfloat pyint out' = Inr r"
proof -
  from len have le: "25 * N \<le> int (length vs)" by simp
  from N len have le': "25 * N \<le> int (length (take (nat (25 * N)) vs))" by simp
  have same: "map (chunk N (take (nat (25 * N)) vs)) [0..<25] = map (chunk N vs) [0..<25]"
    by (rule map_cong) (simp_all add: chunk_take [OF N])
  have 1: "read_output pyfloat pyint out = unpack (map (chunk N vs) [0..<25])"
    by (rule read_output_full [of pyfloat out n vs pyint N, OF toks n N le])
  have 2: "read_output pyfloat pyint out' = unpack (map (chunk N vs) [0..<25])"
    using read_output_full [of pyfloat out' n "take (nat (25 * N)) vs" pyint N, OF toks' n N le']
    by (simp only: same)
  from 1 2 show ?thesis by (simp only: unpack_map) simp
qed

text \<open>
  C9, amended. When every token of the output text is a float literal, the first token
  gives \<open>N \<ge> 0\<close> and more than \<open>25 * N\<close> values follow, \<^verbatim>\<open>_read_output\<close> succeeds and returns
  what it returns on the text cut after the first \<open>1 + 25 * N\<close> tokens: the surplus values
  are dropped.
\<close>

theorem read_output_surplus:
  "map_float pyfloat (split (strip out)) = Inr (n # vs) \<and>
   map_float pyfloat (split (strip out')) = Inr (n # take (nat (25 * N)) vs) \<and>
   pyint n = Inr N \<and> 0 \<le> N \<and> 25 * N < int (length vs) \<longrightarrow>
   (\<exists>r. read_output pyfloat pyint out = Inr r \<and> read_output pyfloat pyint out' = Inr r)"
  using read_output_truncate [of pyfloat out n vs out' N pyint] by blast

lemma lit_tokens_surplus:
  "map_float lit_float (split (strip (''1 '' @ concat (replicate 25 ''1.0 '') @ ''9.5''))) =
     Inr (1 # replicate 25 1 @ [19 / 2])"
  by code_simp

lemma lit_tokens_ones:
  "map_float lit_float (split (strip (''1 '' @ concat (replicate 25 ''1.0 '')))) =
     Inr (1 # replicate 25 1)"
  by code_simp

theorem read_output_surplus_witness:
  "\<exists>r. read_output lit_float lit_int (''1 '' @ concat (replicate 25 ''1.0 '') @ ''9.5'') = Inr r \<and>
     read_output lit_float lit_int (''1 '' @ concat (replicate 25 ''1.0 '')) = Inr r"
  using read_output_surplus [of lit_float "''1 '' @ concat (replicate 25 ''1.0 '') @ ''9.5''" 1
      "replicate 25 1 @ [19 / 2]" "''1 '' @ concat (replicate 25 ''1.0 '')" 1 lit_int]
    lit_tokens_surplus lit_tokens_ones
  by (simp add: lit_int_def)

lemma tokens_surplus_bad:
  "split (strip (''1 '' @ concat (replicate 25 ''1.0 '') @ ''x'')) =
     ''1'' # replicate 25 ''1.0'' @ [''x'']"
  by code_simp

lemma lit_output_surplus_bad:
  "read_output lit_float lit_int (''1 '' @ concat (replicate 25 ''1.0 '') @ ''x'') = Inl ValueError"
  unfolding read_output_def tokens_surplus_bad
  using map_float_None [of "''x''" "''1'' # replicate 25 ''1.0'' @ [''x'']" lit_float] lit_float_x
  by simp

lemma lit_tokens_neg: "map_float lit_float (split (strip ''-1 5 6 7'')) = Inr [- 1, 5, 6, 7]"
  by code_simp

lemma lit_arrays_neg:
  "read_arrays 25 (- 1) [5, 6, 7 :: rat] [] = Inr (Seq [5, 6] # replicate 24 (Seq []))"
  by code_simp

lemma lit_output_neg:
  "read_output lit_float lit_int ''-1 5 6 7'' =
     Inr
      \<lparr>altitude = Seq [5, 6], day_of_year = Seq [], local_time = Seq [],
        latitude = Seq [], longitude = Seq [], f107 = Seq [], f107m = Seq [], kp1 = Seq [],
        kp2 = Seq [], dens = Seq [], temp = Seq [], wmm = Seq [], d_H = Seq [], d_He = Seq [],
        d_O = Seq [], d_N2 = Seq [], d_O2 = Seq [], d_N = Seq [], tinf = Seq [],
        dens_unc = Seq [], dens_std = Seq [], xwind = Seq [], ywind = Seq [],
        xwind_std = Seq [], ywind_std = Seq []\<rparr>"
  by (rule read_output_eval [of lit_float _ "- 1" "[5, 6, 7]" lit_int "- 1", OF lit_tokens_neg _
        lit_arrays_neg]) (simp_all add: unpack_def lit_int_def)

text \<open>
  C9, as stated, fails twice. A surplus token is converted like every other one, so a
  surplus token that is no float literal makes the parser raise; and with a negative
  first token the slices count from the end, so that values beyond the first
  \<open>1 + 25 * N\<close> tokens reach the record.
\<close>

theorem read_output_surplus_counterexample:
  "read_output lit_float lit_int (''1 '' @ concat (replicate 25 ''1.0 '') @ ''x'') = Inl ValueError
   \<and> read_output lit_float lit_int ''-1 5 6 7'' =
     Inr
      \<lparr>altitude = Seq [5, 6], day_of_year = Seq [], local_time = Seq [],
        latitude = Seq [], longitude = Seq [], f107 = Seq [], f107m = Seq [], kp1 = Seq [],
        kp2 = Seq [], dens = Seq [], temp = Seq [], wmm = Seq [], d_H = Seq [], d_He = Seq [],
        d_O = Seq [], d_N2 = Seq [], d_O2 = Seq [], d_N = Seq [], tinf = Seq [],
        dens_unc = Seq [], dens_std = Seq [], xwind = Seq [], ywind = Seq [],
        xwind_std = Seq [], ywind_std = Seq []\<rparr>"
  using lit_output_surplus_bad lit_output_neg by (rule conjI)

section \<open>Lemmas on the request text\<close>

lemma lines_run_line:
  "CHR 0x0A \<notin> set l \<Longrightarrow> lines_run w (l @ nl @ rest) = (w @ l) # lines_run [] rest"
  by (induction l arbitrary: w) (auto simp: nl_def)

lemma lines_of_unlines:
  "\<forall>l\<in>set ls. CHR 0x0A \<notin> set l \<Longrightarrow> lines_of (unlines ls) = ls"
proof (induction ls)
  case Nil
  show ?case by (simp add: lines_of_def unlines_def)
next
  case (Cons l ls)
  from Cons.prems have l: "CHR 0x0A \<notin> set l" by simp
  from Cons have "lines_run [] (unlines ls) = ls" by (simp add: lines_of_def)
  with lines_run_line [OF l, of "[]" "unlines ls"] show ?case
    by (simp add: lines_of_def unlines_def)
qed

lemma lines_of_prefix:
  "\<forall>l\<in>set ls. CHR 0x0A \<notin> set l \<Longrightarrow> lines_of (unlines ls @ rest) = ls @ lines_of rest"
proof (induction ls)
  case Nil
  show ?case by (simp add: lines_of_def unlines_def)
next
  case (Cons l ls)
  from Cons.prems have l: "CHR 0x0A \<notin> set l" by simp
  from Cons have "lines_run [] (unlines ls @ rest) = ls @ lines_run [] rest"
    by (simp add: lines_of_def)
  with lines_run_line [OF l, of "[]" "unlines ls @ rest"] show ?case
    by (simp add: lines_of_def unlines_def)
qed

lemma of_char_digit_char: "d < 10 \<Longrightarrow> of_char (digit_char d) = (48 + d :: nat)"
  by (simp add: digit_char_def)

lemma digit_char_not_nl: "d < 10 \<Longrightarrow> digit_char d \<noteq> CHR 0x0A"
proof
  assume d: "d < 10" and eq: "digit_char d = CHR 0x0A"
  from eq have "of_char (digit_char d) = (of_char (CHR 0x0A) :: nat)" by (rule arg_cong)
  with of_char_digit_char [OF d] have "48 + d = (10::nat)" by simp
  then show False by arith
qed

lemma str_nat_no_nl: "CHR 0x0A \<notin> set (str_nat n)"
proof (induction n rule: str_nat.induct)
  case (1 n)
  show ?case
  proof (cases "n < 10")
    case True
    then have "str_nat n = [digit_char n]" by (simp add: str_nat.simps [of n])
    with digit_char_not_nl [OF True] show ?thesis by auto
  next
    case False
    then have eq: "str_nat n = str_nat (n div 10) @ [digit_char (n mod 10)]"
      by (simp add: str_nat.simps [of n])
    have "n mod 10 < 10" by simp
    from digit_char_not_nl [OF this] "1.IH" [OF False] eq show ?thesis by auto
  qed
qed

lemma str_nat_0: "str_nat 0 = ''0''"
  by code_simp

lemma join_no_nl:
  "\<forall>x\<in>set xs. CHR 0x0A \<notin> set x \<Longrightarrow> CHR 0x0A \<notin> set (join '' '' xs)"
proof (induction xs rule: induct_list012)
  case 1
  show ?case by simp
next
  case (2 x)
  then show ?case by simp
next
  case (3 x y zs)
  then show ?case by simp
qed

lemma join_empty: "join sep [] = []"
  by simp

lemma join_sep_no_nl:
  "CHR 0x0A \<notin> set sep \<Longrightarrow> \<forall>x\<in>set xs. CHR 0x0A \<notin> set x \<Longrightarrow> CHR 0x0A \<notin> set (join sep xs)"
proof (induction xs rule: induct_list012)
  case 1
  show ?case by simp
next
  case (2 x)
  then show ?case by simp
next
  case (3 x y zs)
  then show ?case by simp
qed

lemma py_str_no_nl:
  assumes "\<forall>v. CHR 0x0A \<notin> set (pystr v)"
  shows "CHR 0x0A \<notin> set (py_str pystr x)"
proof (induction x)
  case (PyNum v)
  from assms show ?case by simp
next
  case (PyList xs)
  then have "\<forall>s\<in>set (map (py_str pystr) xs). CHR 0x0A \<notin> set s" by simp
  then have "CHR 0x0A \<notin> set (join '', '' (map (py_str pystr) xs))"
    by (intro join_sep_no_nl) simp_all
  then show ?case by simp
qed

lemma numbers_tolist: "numbers (tolist a) = elements a"
proof (induction a)
  case (Item v)
  show ?case by simp
next
  case (Axis subs)
  then have "map numbers (map tolist subs) = map elements subs" by simp
  then have "concat (map numbers (map tolist subs)) = concat (map elements subs)"
    by (rule arg_cong)
  then show ?case by (simp only: tolist.simps numbers.simps elements.simps)
qed

lemma inputData_unlines:
  "inputData self pystr a1 a2 a3 a4 a5 a6 a7 a8 a9 u w =
     unlines [str_nat (length a1), join '' '' (map (py_str pystr) a1),
       join '' '' (map (py_str pystr) a2), join '' '' (map (py_str pystr) a3),
       join '' '' (map (py_str pystr) a4), join '' '' (map (py_str pystr) a5),
       join '' '' (map (py_str pystr) a6), join '' '' (map (py_str pystr) a7),
       join '' '' (map (py_str pystr) a8), join '' '' (map (py_str pystr) a9),
       fortran_bool w, fortran_bool u, data_dtm self, data_um self]"
  by (simp add: inputData_def unlines_def)

lemma map_py_str_numbers: "map (py_str pystr) (map PyNum a) = map pystr a"
  by simp

lemma inputData_numbers_unlines:
  "inputData self pystr (map PyNum a1) (map PyNum a2) (map PyNum a3) (map PyNum a4)
     (map PyNum a5) (map PyNum a6) (map PyNum a7) (map PyNum a8) (map PyNum a9) u w =
     unlines [str_nat (length a1), join '' '' (map pystr a1), join '' '' (map pystr a2),
       join '' '' (map pystr a3), join '' '' (map pystr a4), join '' '' (map pystr a5),
       join '' '' (map pystr a6), join '' '' (map pystr a7), join '' '' (map pystr a8),
       join '' '' (map pystr a9), fortran_bool w, fortran_bool u, data_dtm self, data_um self]"
  unfolding inputData_unlines map_py_str_numbers by simp

lemma card_lengths:
  "(card {n1, n2, n3, n4, n5, n6, n7, n8, n9 :: nat} = 1) =
   (n2 = n1 \<and> n3 = n1 \<and> n4 = n1 \<and> n5 = n1 \<and> n6 = n1 \<and> n7 = n1 \<and> n8 = n1 \<and> n9 = n1)"
proof
  assume "card {n1, n2, n3, n4, n5, n6, n7, n8, n9} = 1"
  then obtain x where x: "{n1, n2, n3, n4, n5, n6, n7, n8, n9} = {x}"
    by (auto simp only: card_1_singleton_iff One_nat_def)
  have "n1 \<in> {n1, n2, n3, n4, n5, n6, n7, n8, n9}" "n2 \<in> {n1, n2, n3, n4, n5, n6, n7, n8, n9}"
    "n3 \<in> {n1, n2, n3, n4, n5, n6, n7, n8, n9}" "n4 \<in> {n1, n2, n3, n4, n5, n6, n7, n8, n9}"
    "n5 \<in> {n1, n2, n3, n4, n5, n6, n7, n8, n9}" "n6 \<in> {n1, n2, n3, n4, n5, n6, n7, n8, n9}"
    "n7 \<in> {n1, n2, n3, n4, n5, n6, n7, n8, n9}" "n8 \<in> {n1, n2, n3, n4, n5, n6, n7, n8, n9}"
    "n9 \<in> {n1, n2, n3, n4, n5, n6, n7, n8, n9}" by simp_all
  then have "n1 = x" "n2 = x" "n3 = x" "n4 = x" "n5 = x" "n6 = x" "n7 = x" "n8 = x" "n9 = x"
    unfolding x by simp_all
  then show "n2 = n1 \<and> n3 = n1 \<and> n4 = n1 \<and> n5 = n1 \<and> n6 = n1 \<and> n7 = n1 \<and> n8 = n1 \<and> n9 = n1"
    by simp
next
  assume "n2 = n1 \<and> n3 = n1 \<and> n4 = n1 \<and> n5 = n1 \<and> n6 = n1 \<and> n7 = n1 \<and> n8 = n1 \<and> n9 = n1"
  then show "card {n1, n2, n3, n4, n5, n6, n7, n8, n9} = 1" by simp
qed

lemma run_inputData_lists:
  assumes "to_list x1 = Inr (PyList a1)" "to_list x2 = Inr (PyList a2)"
    "to_list x3 = Inr (PyList a3)" "to_list x4 = Inr (PyList a4)" "to_list x5 = Inr (PyList a5)"
    "to_list x6 = Inr (PyList a6)" "to_list x7 = Inr (PyList a7)" "to_list x8 = Inr (PyList a8)"
    "to_list x9 = Inr (PyList a9)"
  shows "run_inputData self pystr x1 x2 x3 x4 x5 x6 x7 x8 x9 u w =
     (if length a2 = length a1 \<and> length a3 = length a1 \<and> length a4 = length a1 \<and>
         length a5 = length a1 \<and> length a6 = length a1 \<and> length a7 = length a1 \<and>
         length a8 = length a1 \<and> length a9 = length a1
      then Inr (inputData self pystr a1 a2 a3 a4 a5 a6 a7 a8 a9 u w)
      else Inl ValueError)"
  unfolding run_inputData_def bind_def Let_def using assms
  by (simp add: card_lengths [unfolded One_nat_def])

lemma isspace_nl: "isspace (CHR 0x0A)"
  by (simp add: isspace_def)

lemma isspace_blank: "isspace CHR '' ''"
  by (simp add: isspace_def)

lemma digit_char_not_space: "d < 10 \<Longrightarrow> \<not> isspace (digit_char d)"
proof
  assume d: "d < 10" and sp: "isspace (digit_char d)"
  from sp of_char_digit_char [OF d]
  have "48 + d \<in> {9, 10, 11, 12, 13, 28, 29, 30, 31, 32, 133, 160 :: nat}"
    by (simp only: isspace_def)
  with d show False by auto
qed

lemma str_nat_not_space: "c \<in> set (str_nat n) \<Longrightarrow> \<not> isspace c"
proof (induction n rule: str_nat.induct)
  case (1 n)
  show ?case
  proof (cases "n < 10")
    case True
    then have "str_nat n = [digit_char n]" by (simp add: str_nat.simps [of n])
    with digit_char_not_space [OF True] "1.prems" show ?thesis by auto
  next
    case False
    then have eq: "str_nat n = str_nat (n div 10) @ [digit_char (n mod 10)]"
      by (simp add: str_nat.simps [of n])
    have "n mod 10 < 10" by simp
    from digit_char_not_space [OF this] "1.IH" [OF False] eq "1.prems" show ?thesis by auto
  qed
qed

lemma str_nat_nonempty: "str_nat n \<noteq> []"
  by (cases "n < 10") (simp_all add: str_nat.simps [of n])

lemma str_int_tokens: "str_int i \<noteq> [] \<and> (\<forall>c\<in>set (str_int i). \<not> isspace c)"
  by (auto simp: str_int_def str_nat_nonempty isspace_def dest: str_nat_not_space)

lemma not_space_no_nl: "\<forall>c\<in>set s. \<not> isspace c \<Longrightarrow> CHR 0x0A \<notin> set s"
  using isspace_nl by blast

lemma split_run_word:
  "\<forall>c\<in>set x. \<not> isspace c \<Longrightarrow> split_run w (x @ rest) = split_run (w @ x) rest"
  by (induction x arbitrary: w) simp_all

lemma split_join:
  "\<forall>x\<in>set xs. x \<noteq> [] \<and> (\<forall>c\<in>set x. \<not> isspace c) \<Longrightarrow> split (join '' '' xs) = xs"
proof (induction xs rule: induct_list012)
  case 1
  show ?case by (simp add: split_def)
next
  case (2 x)
  then have "split_run [] (x @ []) = split_run ([] @ x) []" by (intro split_run_word) simp
  with 2 show ?case by (simp add: split_def)
next
  case (3 x y zs)
  from "3.prems" have x: "\<forall>c\<in>set x. \<not> isspace c" "x \<noteq> []" by simp_all
  from "3.prems" "3.IH"(2) have IH: "split_run [] (join '' '' (y # zs)) = y # zs"
    by (simp add: split_def)
  have "split_run [] (x @ '' '' @ join '' '' (y # zs)) =
      split_run ([] @ x) ('' '' @ join '' '' (y # zs))"
    using x(1) by (rule split_run_word)
  also have "\<dots> = x # split_run [] (join '' '' (y # zs))"
    using x(2) isspace_blank by simp
  finally show ?case using IH by (simp add: split_def)
qed

lemma os_path_join_name:
  "b \<noteq> [] \<Longrightarrow> hd b \<noteq> CHR ''/'' \<Longrightarrow> os_path_join a b = a @ b \<or> os_path_join a b = a @ ''/'' @ b"
  by (simp add: os_path_join_def)

lemma MCM_init_paths_no_nl:
  assumes "CHR 0x0A \<notin> set pwd"
  shows "CHR 0x0A \<notin> set (data_dtm (MCM_init pwd)) \<and> CHR 0x0A \<notin> set (data_um (MCM_init pwd))"
proof -
  have "os_path_join pwd ''data'' = pwd @ ''data'' \<or> os_path_join pwd ''data'' = pwd @ ''/'' @ ''data''"
    by (rule os_path_join_name) simp_all
  with assms have d: "CHR 0x0A \<notin> set (os_path_join pwd ''data'')" by auto
  have "os_path_join (os_path_join pwd ''data'') ''um'' = os_path_join pwd ''data'' @ ''um'' \<or>
      os_path_join (os_path_join pwd ''data'') ''um'' = os_path_join pwd ''data'' @ ''/'' @ ''um''"
    by (rule os_path_join_name) simp_all
  with d have "CHR 0x0A \<notin> set (os_path_join (os_path_join pwd ''data'') ''um'')" by auto
  with d show ?thesis by (simp add: MCM_init_def Let_def)
qed

lemma MCM_init_paths_sep:
  "last (data_dtm (MCM_init pwd)) = CHR ''/'' \<and> last (data_um (MCM_init pwd)) = CHR ''/''"
  by (simp add: MCM_init_def Let_def)

section \<open>Normalising and validating the inputs\<close>

text \<open>
  C7, as stated, fails. \<^verbatim>\<open>to_list\<close> converts nothing to float: the int \<^verbatim>\<open>400\<close> gives the
  list holding the int \<^verbatim>\<open>400\<close>. A two-dimensional array gives a list of lists, not a
  sequence of numbers. And a 0-d array gives the bare element, not a list (then \<^verbatim>\<open>run\<close>
  raises \<^verbatim>\<open>TypeError\<close> at \<^verbatim>\<open>len\<close>).
\<close>

theorem to_list_sequence_counterexample:
  "to_list (Number (PyInt 400)) = Inr (PyList [PyNum (PyInt 400)]) \<and>
   \<not> float_sequence (PyList [PyNum (PyInt 400)]) \<and>
   to_list (NdArray (Axis [Axis [Item (PyFloat 1), Item (PyFloat 2)],
      Axis [Item (PyFloat 3), Item (PyFloat 4)]])) =
     Inr (PyList [PyList [PyNum (PyFloat 1), PyNum (PyFloat 2)],
       PyList [PyNum (PyFloat 3), PyNum (PyFloat 4)]]) \<and>
   \<not> float_sequence (PyList [PyList [PyNum (PyFloat 1), PyNum (PyFloat 2)],
       PyList [PyNum (PyFloat 3), PyNum (PyFloat 4)]]) \<and>
   to_list (NdArray (Item (PyFloat 400))) = Inr (PyNum (PyFloat 400)) \<and>
   \<not> float_sequence (PyNum (PyFloat 400))"
  by simp

lemma run_zero_dim_array:
  "run self popen pyfloat pyint pystr (NdArray (Item x)) (Number d) (Number t) (Number la)
     (Number lo) (Number f) (Number fm) (Number k1) (Number k2) u w = (Inl TypeError, [])"
  by (simp add: run_def run_inputData_def bind_def)

text \<open>
  C7, amended. On a scalar, on a NumPy array of one or more dimensions and on any other
  iterable, \<^verbatim>\<open>to_list\<close> raises no error and returns a list that holds the numbers of the
  input, unchanged and in the input's order: the one-element list of a scalar, the list
  of the elements of a one-dimensional array, the list of the items of an iterable.
\<close>

theorem to_list_sequence:
  "to_list (Number x) = Inr (PyList [PyNum x]) \<and>
   to_list (NdArray (Axis (map Item xs))) = Inr (PyList (map PyNum xs)) \<and>
   to_list (Iterable ys) = Inr (PyList ys) \<and>
   (sequence_shape v \<longrightarrow>
      (\<exists>zs. to_list v = Inr (PyList zs) \<and> numbers (PyList zs) = numbers_in v))"
proof (intro conjI impI)
  show "to_list (Number x) = Inr (PyList [PyNum x])" by simp
  show "to_list (NdArray (Axis (map Item xs))) = Inr (PyList (map PyNum xs))" by simp
  show "to_list (Iterable ys) = Inr (PyList ys)" by simp
next
  assume shape: "sequence_shape v"
  show "\<exists>zs. to_list v = Inr (PyList zs) \<and> numbers (PyList zs) = numbers_in v"
  proof (cases v)
    case (Number x)
    then show ?thesis by simp
  next
    case (NdArray a)
    with shape obtain subs where a: "a = Axis subs" by (cases a) simp_all
    from numbers_tolist [of "Axis subs"]
    have "numbers (PyList (map tolist subs)) = elements (Axis subs)" by simp
    with NdArray a show ?thesis by simp
  next
    case (Iterable ys)
    then show ?thesis by simp
  next
    case NotIterable
    with shape show ?thesis by simp
  qed
qed

theorem to_list_sequence_witness:
  "to_list (Number (400::int)) = Inr (PyList [PyNum 400]) \<and>
   to_list (NdArray (Axis (map Item [1, 2, 3 :: int]))) = Inr (PyList (map PyNum [1, 2, 3])) \<and>
   to_list (Iterable [PyNum 3, PyNum 1, PyNum (2::int)]) =
     Inr (PyList [PyNum 3, PyNum 1, PyNum 2]) \<and>
   sequence_shape (NdArray (Axis [Axis [Item 1, Item 2], Axis [Item (3::int), Item 4]])) \<and>
   (\<exists>zs. to_list (NdArray (Axis [Axis [Item 1, Item 2], Axis [Item (3::int), Item 4]])) =
      Inr (PyList zs) \<and> numbers (PyList zs) = [1, 2, 3, 4])"
  using to_list_sequence [of "400::int" "[1, 2, 3]" "[PyNum 3, PyNum 1, PyNum 2]"
      "NdArray (Axis [Axis [Item 1, Item 2], Axis [Item 3, Item 4]])"]
  by simp

text \<open>
  C3. Once the nine inputs are normalised to lists, \<^verbatim>\<open>run\<close> raises \<^verbatim>\<open>ValueError\<close> (the
  adapter's invalid-input error) when some list has another length than the others, and
  no process has been started then; when the nine lengths are equal no such error is
  raised: the request text is built and \<^verbatim>\<open>run\<close> goes on to the executable, which is
  called on that text.
\<close>

theorem run_length_check:
  "to_list altitude_x = Inr (PyList a1) \<and>
   to_list day_of_year_x = Inr (PyList a2) \<and>
   to_list local_time_x = Inr (PyList a3) \<and> to_list latitude_x = Inr (PyList a4) \<and>
   to_list longitude_x = Inr (PyList a5) \<and> to_list f107_x = Inr (PyList a6) \<and>
   to_list f107m_x = Inr (PyList a7) \<and> to_list kp1_x = Inr (PyList a8) \<and>
   to_list kp2_x = Inr (PyList a9) \<longrightarrow>
   (\<not> (length a2 = length a1 \<and> length a3 = length a1 \<and> length a4 = length a1 \<and>
        length a5 = length a1 \<and> length a6 = length a1 \<and> length a7 = length a1 \<and>
        length a8 = length a1 \<and> length a9 = length a1) \<longrightarrow>
      run self popen pyfloat pyint pystr altitude_x day_of_year_x local_time_x latitude_x
        longitude_x f107_x f107m_x kp1_x kp2_x get_uncertainty get_winds = (Inl ValueError, []))
   \<and> (length a2 = length a1 \<and> length a3 = length a1 \<and> length a4 = length a1 \<and>
        length a5 = length a1 \<and> length a6 = length a1 \<and> length a7 = length a1 \<and>
        length a8 = length a1 \<and> length a9 = length a1 \<longrightarrow>
      run_inputData self pystr altitude_x day_of_year_x local_time_x latitude_x longitude_x
        f107_x f107m_x kp1_x kp2_x get_uncertainty get_winds =
        Inr (inputData self pystr a1 a2 a3 a4 a5 a6 a7 a8 a9 get_uncertainty get_winds) \<and>
      run self popen pyfloat pyint pystr altitude_x day_of_year_x local_time_x latitude_x
        longitude_x f107_x f107m_x kp1_x kp2_x get_uncertainty get_winds =
        (let inp = inputData self pystr a1 a2 a3 a4 a5 a6 a7 a8 a9 get_uncertainty get_winds
         in case popen (path_to_bin self) inp of
              Inl e \<Rightarrow> (Inl e, [])
            | Inr out \<Rightarrow> (read_output pyfloat pyint out, [(path_to_bin self, inp)])))"
proof (intro impI, elim conjE)
  assume l: "to_list altitude_x = Inr (PyList a1)" "to_list day_of_year_x = Inr (PyList a2)"
    "to_list local_time_x = Inr (PyList a3)" "to_list latitude_x = Inr (PyList a4)"
    "to_list longitude_x = Inr (PyList a5)" "to_list f107_x = Inr (PyList a6)"
    "to_list f107m_x = Inr (PyList a7)" "to_list kp1_x = Inr (PyList a8)"
    "to_list kp2_x = Inr (PyList a9)"
  note req = run_inputData_lists [OF l, of self pystr get_uncertainty get_winds]
  show "(\<not> (length a2 = length a1 \<and> length a3 = length a1 \<and> length a4 = length a1 \<and>
        length a5 = length a1 \<and> length a6 = length a1 \<and> length a7 = length a1 \<and>
        length a8 = length a1 \<and> length a9 = length a1) \<longrightarrow>
      run self popen pyfloat pyint pystr altitude_x day_of_year_x local_time_x latitude_x
        longitude_x f107_x f107m_x kp1_x kp2_x get_uncertainty get_winds = (Inl ValueError, []))
   \<and> (length a2 = length a1 \<and> length a3 = length a1 \<and> length a4 = length a1 \<and>
        length a5 = length a1 \<and> length a6 = length a1 \<and> length a7 = length a1 \<and>
        length a8 = length a1 \<and> length a9 = length a1 \<longrightarrow>
      run_inputData self pystr altitude_x day_of_year_x local_time_x latitude_x longitude_x
        f107_x f107m_x kp1_x kp2_x get_uncertainty get_winds =
        Inr (inputData self pystr a1 a2 a3 a4 a5 a6 a7 a8 a9 get_uncertainty get_winds) \<and>
      run self popen pyfloat pyint pystr altitude_x day_of_year_x local_time_x latitude_x
        longitude_x f107_x f107m_x kp1_x kp2_x get_uncertainty get_winds =
        (let inp = inputData self pystr a1 a2 a3 a4 a5 a6 a7 a8 a9 get_uncertainty get_winds
         in case popen (path_to_bin self) inp of
              Inl e \<Rightarrow> (Inl e, [])
            | Inr out \<Rightarrow> (read_output pyfloat pyint out, [(path_to_bin self, inp)])))"
    unfolding run_def req by (simp add: Let_def)
qed

lemma lit_paths:
  "path_to_bin (MCM_init ''/opt/swami'') = ''/opt/swami/swami.x'' \<and>
   data_dtm (MCM_init ''/opt/swami'') = ''/opt/swami/data/'' \<and>
   data_um (MCM_init ''/opt/swami'') = ''/opt/swami/data/um/''"
  by (simp add: MCM_init_def os_path_join_def)

lemma lit_strs:
  "str_nat 0 = ''0'' \<and> str_nat 1 = ''1'' \<and> str_int 400 = ''400'' \<and> str_int 45 = ''45'' \<and>
   str_int 12 = ''12'' \<and> str_int 0 = ''0'' \<and> str_int 180 = ''180'' \<and> str_int 120 = ''120'' \<and>
   str_int 110 = ''110'' \<and> str_int 2 = ''2''"
  by code_simp

lemma str_nat_Suc_0: "str_nat (Suc 0) = ''1''"
  by code_simp

lemma lit_request:
  "inputData (MCM_init ''/opt/swami'') str_int [PyNum 400] [PyNum 45] [PyNum 12] [PyNum 0] [PyNum 180] [PyNum 120] [PyNum 110] [PyNum 2] [PyNum 2]
     False False =
   unlines [''1'', ''400'', ''45'', ''12'', ''0'', ''180'', ''120'', ''110'', ''2'', ''2'', ''F'', ''F'',
     ''/opt/swami/data/'', ''/opt/swami/data/um/'']"
  by (simp add: inputData_unlines lit_paths lit_strs str_nat_Suc_0 fortran_bool_def)

theorem run_length_check_witness:
  "run (MCM_init ''/opt/swami'') (\<lambda>bin inp. Inr '''') lit_float lit_int str_int
     (Iterable [PyNum 400, PyNum 500]) (Number 45) (Number 12) (Number 0) (Number 180) (Number 120)
     (Number 110) (Number 2) (Number 2) False False = (Inl ValueError, [])
   \<and> snd (run (MCM_init ''/opt/swami'') (\<lambda>bin inp. Inr '''') lit_float lit_int str_int
     (Iterable [PyNum 400]) (Number 45) (Number 12) (Number 0) (Number 180) (Number 120)
     (Number 110) (NdArray (Axis [Item 2])) (Number 2) False False) =
     [(''/opt/swami/swami.x'',
       unlines [''1'', ''400'', ''45'', ''12'', ''0'', ''180'', ''120'', ''110'', ''2'', ''2'', ''F'',
         ''F'', ''/opt/swami/data/'', ''/opt/swami/data/um/''])]"
  using run_length_check [of "Iterable [PyNum 400, PyNum 500]" "[PyNum 400, PyNum 500]" "Number 45" "[PyNum 45]" "Number 12"
      "[PyNum 12]" "Number 0" "[PyNum 0]" "Number 180" "[PyNum 180]" "Number 120" "[PyNum 120]" "Number 110" "[PyNum 110]"
      "Number 2" "[PyNum 2]" "Number 2" "[PyNum 2]" "MCM_init ''/opt/swami''" "\<lambda>bin inp. Inr ''''"
      lit_float lit_int str_int False False]
    run_length_check [of "Iterable [PyNum 400]" "[PyNum 400]" "Number 45" "[PyNum 45]" "Number 12"
      "[PyNum 12]" "Number 0" "[PyNum 0]" "Number 180" "[PyNum 180]" "Number 120" "[PyNum 120]" "Number 110" "[PyNum 110]"
      "NdArray (Axis [Item 2])" "[PyNum 2]" "Number 2" "[PyNum 2]" "MCM_init ''/opt/swami''" "\<lambda>bin inp. Inr ''''"
      lit_float lit_int str_int False False]
  by (simp add: lit_request lit_paths)

text \<open>
  C10. When the nine inputs normalise to empty lists, the length check passes and the
  request text starts with the line \<^verbatim>\<open>0\<close> followed by nine empty lines (then the two
  flags and the two paths).
\<close>

theorem run_inputData_empty:
  "to_list altitude_x = Inr (PyList []) \<and>
   to_list day_of_year_x = Inr (PyList []) \<and>
   to_list local_time_x = Inr (PyList []) \<and> to_list latitude_x = Inr (PyList []) \<and>
   to_list longitude_x = Inr (PyList []) \<and> to_list f107_x = Inr (PyList []) \<and>
   to_list f107m_x = Inr (PyList []) \<and> to_list kp1_x = Inr (PyList []) \<and>
   to_list kp2_x = Inr (PyList []) \<longrightarrow>
   run_inputData self pystr altitude_x day_of_year_x local_time_x latitude_x longitude_x
     f107_x f107m_x kp1_x kp2_x get_uncertainty get_winds =
     Inr (unlines ([''0''] @ replicate 9 [] @
       [fortran_bool get_winds, fortran_bool get_uncertainty, data_dtm self, data_um self]))"
proof (intro impI, elim conjE)
  assume l: "to_list altitude_x = Inr (PyList [])" "to_list day_of_year_x = Inr (PyList [])"
    "to_list local_time_x = Inr (PyList [])" "to_list latitude_x = Inr (PyList [])"
    "to_list longitude_x = Inr (PyList [])" "to_list f107_x = Inr (PyList [])"
    "to_list f107m_x = Inr (PyList [])" "to_list kp1_x = Inr (PyList [])"
    "to_list kp2_x = Inr (PyList [])"
  have nine: "replicate 9 ([]::string) = [[], [], [], [], [], [], [], [], []]"
    by (simp add: eval_nat_numeral)
  show "run_inputData self pystr altitude_x day_of_year_x local_time_x latitude_x longitude_x
     f107_x f107m_x kp1_x kp2_x get_uncertainty get_winds =
     Inr (unlines ([''0''] @ replicate 9 [] @
       [fortran_bool get_winds, fortran_bool get_uncertainty, data_dtm self, data_um self]))"
    unfolding run_inputData_lists [OF l] inputData_unlines nine using lit_strs by simp
qed

theorem run_inputData_empty_witness:
  "run_inputData (MCM_init ''/opt/swami'') str_int (Iterable []) (Iterable []) (NdArray (Axis []))
     (Iterable []) (Iterable []) (Iterable []) (Iterable []) (Iterable []) (Iterable []) False True =
   Inr (unlines [''0'', [], [], [], [], [], [], [], [], [], ''T'', ''F'', ''/opt/swami/data/'',
     ''/opt/swami/data/um/''])"
  using run_inputData_empty [of "Iterable []" "Iterable []" "NdArray (Axis [])" "Iterable []"
      "Iterable []" "Iterable []" "Iterable []" "Iterable []" "Iterable []"
      "MCM_init ''/opt/swami''" str_int False True]
  by (simp add: lit_paths fortran_bool_def eval_nat_numeral)

lemma fortran_bool_no_nl: "CHR 0x0A \<notin> set (fortran_bool b)"
  by (simp add: fortran_bool_def)

lemma inputData_lines_flags:
  assumes nl: "\<forall>v. CHR 0x0A \<notin> set (pystr v)"
  shows "lines_of (inputData self pystr a1 a2 a3 a4 a5 a6 a7 a8 a9 u w) ! 10 = fortran_bool w \<and>
     lines_of (inputData self pystr a1 a2 a3 a4 a5 a6 a7 a8 a9 u w) ! 11 = fortran_bool u"
proof -
  let ?head = "[str_nat (length a1), join '' '' (map (py_str pystr) a1),
       join '' '' (map (py_str pystr) a2), join '' '' (map (py_str pystr) a3),
       join '' '' (map (py_str pystr) a4), join '' '' (map (py_str pystr) a5),
       join '' '' (map (py_str pystr) a6), join '' '' (map (py_str pystr) a7),
       join '' '' (map (py_str pystr) a8), join '' '' (map (py_str pystr) a9),
       fortran_bool w, fortran_bool u]"
  have j: "CHR 0x0A \<notin> set (join '' '' (map (py_str pystr) a))" for a
    using py_str_no_nl [OF nl] by (intro join_no_nl) simp
  have head: "\<forall>l\<in>set ?head. CHR 0x0A \<notin> set l"
    by (simp add: j str_nat_no_nl fortran_bool_no_nl)
  have "inputData self pystr a1 a2 a3 a4 a5 a6 a7 a8 a9 u w =
      unlines ?head @ unlines [data_dtm self, data_um self]"
    by (simp add: inputData_unlines unlines_def)
  with lines_of_prefix [OF head, of "unlines [data_dtm self, data_um self]"]
  have "lines_of (inputData self pystr a1 a2 a3 a4 a5 a6 a7 a8 a9 u w) =
      ?head @ lines_of (unlines [data_dtm self, data_um self])" by simp
  then show ?thesis by simp
qed

section \<open>The request text\<close>

text \<open>
  C8. \<^verbatim>\<open>fortran_bool\<close> gives the single character \<^verbatim>\<open>T\<close> for True and \<^verbatim>\<open>F\<close> for False,
  and in the request text the flag for the winds is the line (the eleventh) right before
  the flag for the uncertainty (the twelfth), whatever the two flags are.
\<close>

theorem fortran_bool_lines:
  "fortran_bool True = ''T'' \<and> fortran_bool False = ''F'' \<and>
   (to_list altitude_x = Inr (PyList a1) \<and>
    to_list day_of_year_x = Inr (PyList a2) \<and>
    to_list local_time_x = Inr (PyList a3) \<and>
    to_list latitude_x = Inr (PyList a4) \<and> to_list longitude_x = Inr (PyList a5) \<and>
    to_list f107_x = Inr (PyList a6) \<and> to_list f107m_x = Inr (PyList a7) \<and>
    to_list kp1_x = Inr (PyList a8) \<and> to_list kp2_x = Inr (PyList a9) \<and>
    length a2 = length a1 \<and> length a3 = length a1 \<and> length a4 = length a1 \<and>
    length a5 = length a1 \<and> length a6 = length a1 \<and> length a7 = length a1 \<and>
    length a8 = length a1 \<and> length a9 = length a1 \<and> (\<forall>v. CHR 0x0A \<notin> set (pystr v)) \<longrightarrow>
    (\<exists>req. run_inputData self pystr altitude_x day_of_year_x local_time_x latitude_x longitude_x
        f107_x f107m_x kp1_x kp2_x get_uncertainty get_winds = Inr req \<and>
      lines_of req ! 10 = fortran_bool get_winds \<and>
      lines_of req ! 11 = fortran_bool get_uncertainty))"
proof (intro conjI impI; (elim conjE)?)
  show "fortran_bool True = ''T''" by (simp add: fortran_bool_def)
  show "fortran_bool False = ''F''" by (simp add: fortran_bool_def)
next
  assume l: "to_list altitude_x = Inr (PyList a1)" "to_list day_of_year_x = Inr (PyList a2)"
    "to_list local_time_x = Inr (PyList a3)" "to_list latitude_x = Inr (PyList a4)"
    "to_list longitude_x = Inr (PyList a5)" "to_list f107_x = Inr (PyList a6)"
    "to_list f107m_x = Inr (PyList a7)" "to_list kp1_x = Inr (PyList a8)"
    "to_list kp2_x = Inr (PyList a9)"
    and eq: "length a2 = length a1" "length a3 = length a1" "length a4 = length a1"
    "length a5 = length a1" "length a6 = length a1" "length a7 = length a1"
    "length a8 = length a1" "length a9 = length a1"
    and nl: "\<forall>v. CHR 0x0A \<notin> set (pystr v)"
  have "run_inputData self pystr altitude_x day_of_year_x local_time_x latitude_x longitude_x
        f107_x f107m_x kp1_x kp2_x get_uncertainty get_winds =
      Inr (inputData self pystr a1 a2 a3 a4 a5 a6 a7 a8 a9 get_uncertainty get_winds)"
    unfolding run_inputData_lists [OF l] using eq by simp
  with inputData_lines_flags [OF nl, of self a1 a2 a3 a4 a5 a6 a7 a8 a9 get_uncertainty get_winds]
  show "\<exists>req. run_inputData self pystr altitude_x day_of_year_x local_time_x latitude_x longitude_x
        f107_x f107m_x kp1_x kp2_x get_uncertainty get_winds = Inr req \<and>
      lines_of req ! 10 = fortran_bool get_winds \<and>
      lines_of req ! 11 = fortran_bool get_uncertainty"
    by simp
qed

lemma str_int_no_nl: "CHR 0x0A \<notin> set (str_int i)"
  using str_int_tokens [of i] isspace_nl by blast

theorem fortran_bool_lines_witness:
  "\<exists>req. run_inputData (MCM_init ''/opt/swami'') str_int (Number 400) (Number 45) (Number 12)
       (Number 0) (Number 180) (Number 120) (Number 110) (Number 2) (Number 2) True False =
       Inr req \<and>
     lines_of req ! 10 = ''F'' \<and> lines_of req ! 11 = ''T''"
  using fortran_bool_lines [of "Number 400" "[PyNum 400]" "Number 45" "[PyNum 45]" "Number 12"
      "[PyNum 12]" "Number 0" "[PyNum 0]" "Number 180" "[PyNum 180]" "Number 120" "[PyNum 120]" "Number 110" "[PyNum 110]"
      "Number 2" "[PyNum 2]" "Number 2" "[PyNum 2]" str_int "MCM_init ''/opt/swami''" True False]
    str_int_no_nl
  by (simp add: fortran_bool_def)

lemma inputData_lines:
  assumes tok: "\<forall>v. pystr v \<noteq> [] \<and> (\<forall>c\<in>set (pystr v). \<not> isspace c)"
    and dtm: "CHR 0x0A \<notin> set (data_dtm self)" and um: "CHR 0x0A \<notin> set (data_um self)"
  shows "lines_of (inputData self pystr (map PyNum a1) (map PyNum a2) (map PyNum a3)
       (map PyNum a4) (map PyNum a5) (map PyNum a6) (map PyNum a7) (map PyNum a8)
       (map PyNum a9) u w) =
     [str_nat (length a1), join '' '' (map pystr a1), join '' '' (map pystr a2),
       join '' '' (map pystr a3), join '' '' (map pystr a4), join '' '' (map pystr a5),
       join '' '' (map pystr a6), join '' '' (map pystr a7), join '' '' (map pystr a8),
       join '' '' (map pystr a9), fortran_bool w, fortran_bool u, data_dtm self, data_um self]"
proof -
  have nl: "CHR 0x0A \<notin> set (pystr v)" for v
    using tok isspace_nl by blast
  have j: "CHR 0x0A \<notin> set (join '' '' (map pystr a))" for a
    using nl by (intro join_no_nl) simp
  show ?thesis
    unfolding inputData_numbers_unlines
    by (rule lines_of_unlines) (simp add: j str_nat_no_nl fortran_bool_no_nl dtm um)
qed

text \<open>
  C2. For nine normalised lists of one length \<open>N\<close>, the request text consists of these
  lines in this order, each ended by a newline: \<open>N\<close> in decimal; for altitude,
  day_of_year, local_time, latitude, longitude, f107, f107m, kp1 and kp2 the \<open>N\<close>
  representations joined by single spaces; \<^verbatim>\<open>T\<close> or \<^verbatim>\<open>F\<close> for the winds, then for the
  uncertainty; the data directory and its \<^verbatim>\<open>um\<close> subdirectory, each ending with the
  separator \<^verbatim>\<open>/\<close>. When the representations are non-empty and free of whitespace, each
  line splits back into its \<open>N\<close> values, and the text splits back into the 14 lines.
\<close>

theorem run_inputData_layout:
  "to_list altitude_x = Inr (PyList (map PyNum a1)) \<and>
   to_list day_of_year_x = Inr (PyList (map PyNum a2)) \<and>
   to_list local_time_x = Inr (PyList (map PyNum a3)) \<and>
   to_list latitude_x = Inr (PyList (map PyNum a4)) \<and>
   to_list longitude_x = Inr (PyList (map PyNum a5)) \<and>
   to_list f107_x = Inr (PyList (map PyNum a6)) \<and>
   to_list f107m_x = Inr (PyList (map PyNum a7)) \<and>
   to_list kp1_x = Inr (PyList (map PyNum a8)) \<and>
   to_list kp2_x = Inr (PyList (map PyNum a9)) \<and>
   length a2 = length a1 \<and> length a3 = length a1 \<and> length a4 = length a1 \<and>
   length a5 = length a1 \<and> length a6 = length a1 \<and> length a7 = length a1 \<and>
   length a8 = length a1 \<and> length a9 = length a1 \<longrightarrow>
   (let self = MCM_init pwd;
        layout = [str_nat (length a1), join '' '' (map pystr a1), join '' '' (map pystr a2),
          join '' '' (map pystr a3), join '' '' (map pystr a4), join '' '' (map pystr a5),
          join '' '' (map pystr a6), join '' '' (map pystr a7), join '' '' (map pystr a8),
          join '' '' (map pystr a9), fortran_bool get_winds, fortran_bool get_uncertainty,
          data_dtm self, data_um self]
    in run_inputData self pystr altitude_x day_of_year_x local_time_x latitude_x longitude_x
         f107_x f107m_x kp1_x kp2_x get_uncertainty get_winds = Inr (unlines layout) \<and>
       last (data_dtm self) = CHR ''/'' \<and> last (data_um self) = CHR ''/'' \<and>
       ((\<forall>v. pystr v \<noteq> [] \<and> (\<forall>c\<in>set (pystr v). \<not> isspace c)) \<longrightarrow>
          (\<forall>a. split (join '' '' (map pystr a)) = map pystr a) \<and>
          (CHR 0x0A \<notin> set pwd \<longrightarrow> lines_of (unlines layout) = layout)))"
proof (intro impI, elim conjE)
  assume l: "to_list altitude_x = Inr (PyList (map PyNum a1))"
    "to_list day_of_year_x = Inr (PyList (map PyNum a2))"
    "to_list local_time_x = Inr (PyList (map PyNum a3))"
    "to_list latitude_x = Inr (PyList (map PyNum a4))"
    "to_list longitude_x = Inr (PyList (map PyNum a5))"
    "to_list f107_x = Inr (PyList (map PyNum a6))"
    "to_list f107m_x = Inr (PyList (map PyNum a7))"
    "to_list kp1_x = Inr (PyList (map PyNum a8))"
    "to_list kp2_x = Inr (PyList (map PyNum a9))"
    and eq: "length a2 = length a1" "length a3 = length a1" "length a4 = length a1"
    "length a5 = length a1" "length a6 = length a1" "length a7 = length a1"
    "length a8 = length a1" "length a9 = length a1"
  define self where "self = MCM_init pwd"
  define layout where "layout = [str_nat (length a1), join '' '' (map pystr a1),
    join '' '' (map pystr a2), join '' '' (map pystr a3), join '' '' (map pystr a4),
    join '' '' (map pystr a5), join '' '' (map pystr a6), join '' '' (map pystr a7),
    join '' '' (map pystr a8), join '' '' (map pystr a9), fortran_bool get_winds,
    fortran_bool get_uncertainty, data_dtm self, data_um self]"
  have req: "run_inputData self pystr altitude_x day_of_year_x local_time_x latitude_x longitude_x
      f107_x f107m_x kp1_x kp2_x get_uncertainty get_winds = Inr (unlines layout)"
    unfolding run_inputData_lists [OF l] layout_def inputData_numbers_unlines using eq by simp
  have sep: "last (data_dtm self) = CHR ''/'' \<and> last (data_um self) = CHR ''/''"
    unfolding self_def by (rule MCM_init_paths_sep)
  have toks: "\<forall>a. split (join '' '' (map pystr a)) = map pystr a"
    if tok: "\<forall>v. pystr v \<noteq> [] \<and> (\<forall>c\<in>set (pystr v). \<not> isspace c)"
    using tok by (intro allI split_join) simp
  have lines: "lines_of (unlines layout) = layout"
    if tok: "\<forall>v. pystr v \<noteq> [] \<and> (\<forall>c\<in>set (pystr v). \<not> isspace c)" and pwd: "CHR 0x0A \<notin> set pwd"
    using inputData_lines [OF tok, of self a1 a2 a3 a4 a5 a6 a7 a8 a9 get_uncertainty get_winds]
      MCM_init_paths_no_nl [OF pwd]
    unfolding layout_def inputData_numbers_unlines self_def by simp
  from req sep toks lines show "let self = MCM_init pwd;
        layout = [str_nat (length a1), join '' '' (map pystr a1), join '' '' (map pystr a2),
          join '' '' (map pystr a3), join '' '' (map pystr a4), join '' '' (map pystr a5),
          join '' '' (map pystr a6), join '' '' (map pystr a7), join '' '' (map pystr a8),
          join '' '' (map pystr a9), fortran_bool get_winds, fortran_bool get_uncertainty,
          data_dtm self, data_um self]
    in run_inputData self pystr altitude_x day_of_year_x local_time_x latitude_x longitude_x
         f107_x f107m_x kp1_x kp2_x get_uncertainty get_winds = Inr (unlines layout) \<and>
       last (data_dtm self) = CHR ''/'' \<and> last (data_um self) = CHR ''/'' \<and>
       ((\<forall>v. pystr v \<noteq> [] \<and> (\<forall>c\<in>set (pystr v). \<not> isspace c)) \<longrightarrow>
          (\<forall>a. split (join '' '' (map pystr a)) = map pystr a) \<and>
          (CHR 0x0A \<notin> set pwd \<longrightarrow> lines_of (unlines layout) = layout))"
    unfolding Let_def self_def [symmetric] layout_def [symmetric] by blast
qed

lemma lit_pwd_no_nl: "CHR 0x0A \<notin> set ''/opt/swami''"
  by simp

theorem run_inputData_layout_witness:
  "run_inputData (MCM_init ''/opt/swami'') str_int (Iterable [PyNum 400]) (Iterable [PyNum 45])
     (Iterable [PyNum 12]) (Iterable [PyNum 0]) (Iterable [PyNum 180]) (Iterable [PyNum 120]) (Iterable [PyNum 110])
     (Iterable [PyNum 2]) (Iterable [PyNum 2]) False False =
     Inr (unlines [''1'', ''400'', ''45'', ''12'', ''0'', ''180'', ''120'', ''110'', ''2'', ''2'', ''F'',
       ''F'', ''/opt/swami/data/'', ''/opt/swami/data/um/''])
   \<and> lines_of (unlines [''1'', ''400'', ''45'', ''12'', ''0'', ''180'', ''120'', ''110'', ''2'', ''2'',
       ''F'', ''F'', ''/opt/swami/data/'', ''/opt/swami/data/um/'']) =
     [''1'', ''400'', ''45'', ''12'', ''0'', ''180'', ''120'', ''110'', ''2'', ''2'', ''F'', ''F'',
       ''/opt/swami/data/'', ''/opt/swami/data/um/'']
   \<and> (\<forall>a. split (join '' '' (map str_int a)) = map str_int a)"
  using run_inputData_layout [of "Iterable [PyNum 400]" "[400]" "Iterable [PyNum 45]" "[45]" "Iterable [PyNum 12]"
      "[12]" "Iterable [PyNum 0]" "[0]" "Iterable [PyNum 180]" "[180]" "Iterable [PyNum 120]" "[120]"
      "Iterable [PyNum 110]" "[110]" "Iterable [PyNum 2]" "[2]" "Iterable [PyNum 2]" "[2]" "''/opt/swami''"
      str_int False False]
    str_int_tokens lit_pwd_no_nl
  by (simp add: Let_def lit_paths lit_strs str_nat_Suc_0 fortran_bool_def)

end
